theory Spec2Isabelle
  imports Complex_Main "HOL-Library.Sublist" "HOL-Library.Log_Nat"
begin

section \<open>The assessment store (stores/assessmentStore.ts)\<close>

text \<open>
  The store is a zustand store: one state object and setters that call \<open>set\<close> with a
  partial object, which zustand merges into the state (fields that the partial object
  does not mention keep their value). The version with the \<open>faceEmbedding\<close> field is
  modelled; the other version of the file differs only by the absence of that field.
  Optional and nullable fields are \<open>option\<close>s; a JavaScript \<open>number\<close> that is used as a
  counter or an index is an \<open>int\<close>.
\<close>

record UploadedFile =
  name :: string
  path :: string
  size_f :: nat
  content :: "string option"

record Question =
  id_q :: string
  questionNumber :: int
  questionText :: string
  options :: "string list"
  correctAnswer :: string
  userAnswer :: "string option"

record Permissions =
  camera :: bool
  microphone :: bool

record AssessmentState =
  currentAssessmentId :: "string option"
  uploadedFiles :: "UploadedFile list"
  permissions :: Permissions
  faceEmbedding :: "rat list option"
  questions :: "Question list"
  currentQuestionIndex :: int
  timeRemaining :: int
  isAssessmentComplete :: bool

text \<open>The object literal passed to \<open>create\<close>: the documented initial defaults.\<close>

definition initialState :: AssessmentState where
  "initialState =
     \<lparr> currentAssessmentId = None,
       uploadedFiles = [],
       permissions = \<lparr> camera = False, microphone = False \<rparr>,
       faceEmbedding = None,
       questions = [],
       currentQuestionIndex = 0,
       timeRemaining = 30,
       isAssessmentComplete = False \<rparr>"

definition setCurrentAssessmentId :: "string option \<Rightarrow> AssessmentState \<Rightarrow> AssessmentState" where
  "setCurrentAssessmentId i state = state\<lparr>currentAssessmentId := i\<rparr>"

definition setUploadedFiles :: "UploadedFile list \<Rightarrow> AssessmentState \<Rightarrow> AssessmentState" where
  "setUploadedFiles files state = state\<lparr>uploadedFiles := files\<rparr>"

definition setPermissions :: "Permissions \<Rightarrow> AssessmentState \<Rightarrow> AssessmentState" where
  "setPermissions p state = state\<lparr>permissions := p\<rparr>"

definition setFaceEmbedding :: "rat list option \<Rightarrow> AssessmentState \<Rightarrow> AssessmentState" where
  "setFaceEmbedding embedding state = state\<lparr>faceEmbedding := embedding\<rparr>"

definition setQuestions :: "Question list \<Rightarrow> AssessmentState \<Rightarrow> AssessmentState" where
  "setQuestions qs state = state\<lparr>questions := qs\<rparr>"

definition setCurrentQuestionIndex :: "int \<Rightarrow> AssessmentState \<Rightarrow> AssessmentState" where
  "setCurrentQuestionIndex index state = state\<lparr>currentQuestionIndex := index\<rparr>"

definition setTimeRemaining :: "int \<Rightarrow> AssessmentState \<Rightarrow> AssessmentState" where
  "setTimeRemaining t state = state\<lparr>timeRemaining := t\<rparr>"

text \<open>
  \<open>questions.map((q, i) => i === questionIndex ? { ...q, userAnswer: answer } : q)\<close>:
  the callback sees every element with its position, counted from 0.
\<close>

definition setUserAnswer :: "int \<Rightarrow> string \<Rightarrow> AssessmentState \<Rightarrow> AssessmentState" where
  "setUserAnswer questionIndex answer state =
     state\<lparr>questions :=
       map (\<lambda>(i, q). if int i = questionIndex then q\<lparr>userAnswer := Some answer\<rparr> else q)
           (enumerate 0 (questions state))\<rparr>"

definition setAssessmentComplete :: "bool \<Rightarrow> AssessmentState \<Rightarrow> AssessmentState" where
  "setAssessmentComplete done_flag state = state\<lparr>isAssessmentComplete := done_flag\<rparr>"

text \<open>
  \<open>resetAssessment\<close> passes a partial object with seven keys; \<open>permissions\<close> is not one
  of them, so the merge leaves it as it was.
\<close>

definition resetAssessment :: "AssessmentState \<Rightarrow> AssessmentState" where
  "resetAssessment state =
     state\<lparr> currentAssessmentId := None,
            uploadedFiles := [],
            faceEmbedding := None,
            questions := [],
            currentQuestionIndex := 0,
            timeRemaining := 30,
            isAssessmentComplete := False \<rparr>"

text \<open>Two sample questions and a store in the middle of an assessment, for concrete runs.\<close>

definition q1 :: Question where
  "q1 = \<lparr> id_q = ''q-1'', questionNumber = 1, questionText = ''What does App render?'',
          options = [''A'', ''B'', ''C'', ''D''], correctAnswer = ''A'', userAnswer = None \<rparr>"

definition q2 :: Question where
  "q2 = \<lparr> id_q = ''q-2'', questionNumber = 2, questionText = ''Which store is used?'',
          options = [''A'', ''B'', ''C'', ''D''], correctAnswer = ''B'', userAnswer = None \<rparr>"

definition busyState :: AssessmentState where
  "busyState =
     \<lparr> currentAssessmentId = Some ''a-1'',
       uploadedFiles = [\<lparr> name = ''src/App.tsx'', path = ''src/App.tsx'', size_f = 3,
                          content = Some ''abc'' \<rparr>],
       permissions = \<lparr> camera = True, microphone = False \<rparr>,
       faceEmbedding = Some [1/10, 2/10],
       questions = [q1, q2],
       currentQuestionIndex = 1,
       timeRemaining = 12,
       isAssessmentComplete = True \<rparr>"

section \<open>The upload page (pages/FileUpload.tsx)\<close>

text \<open>
  \<open>handleFileUpload\<close> reads the file's name, hands the file to JSZip and walks the
  entries of the archive. JSZip is a library: what \<open>zip.loadAsync(file)\<close> resolves to
  is part of the input here, as the list of \<open>Object.entries(contents.files)\<close> in their
  order, or \<open>None\<close> when the promise rejects. An entry carries its \<open>dir\<close> flag and what
  \<open>zipEntry.async('text')\<close> resolves to (\<open>None\<close> when that promise rejects). The calls of
  \<open>zip.loadAsync\<close> are recorded, so that "no extraction was attempted" can be said.
\<close>

datatype toast = ToastError string | ToastSuccess string | ToastWarning string

record ZipEntry =
  entry_path :: string
  dir :: bool
  entry_text :: "string option"

record File =
  file_name :: string
  archive :: "ZipEntry list option"

record UploadPage =
  store :: AssessmentState
  toasts :: "toast list"
  loadAsyncCalls :: "string list"

text \<open>\<open>String.prototype.endsWith\<close> and \<open>String.prototype.includes\<close>, both case-sensitive.\<close>

definition endsWith :: "string \<Rightarrow> string \<Rightarrow> bool" where
  "endsWith s t = suffix t s"

definition js_includes :: "string \<Rightarrow> string \<Rightarrow> bool" where
  "js_includes s t = sublist t s"

text \<open>A number inside a template literal: its decimal digits.\<close>

fun decimal :: "nat \<Rightarrow> string" where
  "decimal n =
     (if n < 10 then [''0123456789'' ! n]
      else decimal (n div 10) @ [''0123456789'' ! (n mod 10)])"

declare decimal.simps [simp del]

text \<open>
  The \<open>for ... of\<close> loop over the entries, with the array \<open>files\<close> it pushes to. A
  rejected \<open>async('text')\<close> throws out of the loop (\<open>None\<close>).
\<close>

definition eligible :: "ZipEntry \<Rightarrow> bool" where
  "eligible e = (\<not> dir e \<and> \<not> js_includes (entry_path e) ''node_modules''
                 \<and> \<not> js_includes (entry_path e) ''.git'')"

definition preview :: "string \<Rightarrow> string \<Rightarrow> UploadedFile" where
  "preview p body =
     \<lparr> name = p, path = p, size_f = length body, content = Some (take 500 body) \<rparr>"

fun extractFiles :: "ZipEntry list \<Rightarrow> UploadedFile list \<Rightarrow> UploadedFile list option" where
  "extractFiles [] files = Some files"
| "extractFiles (e # es) files =
     (if eligible e then
        (case entry_text e of
           None \<Rightarrow> None
         | Some body \<Rightarrow> extractFiles es (files @ [preview (entry_path e) body]))
      else extractFiles es files)"

definition handleFileUpload :: "File \<Rightarrow> UploadPage \<Rightarrow> UploadPage" where
  "handleFileUpload file pg =
     (if \<not> endsWith (file_name file) ''.zip'' then
        pg\<lparr>toasts := toasts pg @ [ToastError ''Please upload a ZIP file'']\<rparr>
      else
        let pg1 = pg\<lparr>loadAsyncCalls := loadAsyncCalls pg @ [file_name file]\<rparr> in
        (case archive file of
           None \<Rightarrow> pg1\<lparr>toasts := toasts pg1 @ [ToastError ''Failed to extract ZIP file'']\<rparr>
         | Some entries \<Rightarrow>
             (case extractFiles entries [] of
                None \<Rightarrow> pg1\<lparr>toasts := toasts pg1 @ [ToastError ''Failed to extract ZIP file'']\<rparr>
              | Some files \<Rightarrow>
                  pg1\<lparr>store := setUploadedFiles files (store pg1),
                      toasts := toasts pg1
                        @ [ToastSuccess (''Extracted '' @ decimal (length files) @ '' files'')]\<rparr>)))"

text \<open>A page that already holds an upload, and three files to drop on it.\<close>

definition uploadPage0 :: UploadPage where
  "uploadPage0 = \<lparr> store = busyState, toasts = [], loadAsyncCalls = [] \<rparr>"

definition sampleEntries :: "ZipEntry list" where
  "sampleEntries =
     [ \<lparr> entry_path = ''src/'', dir = True, entry_text = Some [] \<rparr>,
       \<lparr> entry_path = ''src/main.ts'', dir = False, entry_text = Some (replicate 600 CHR ''x'') \<rparr>,
       \<lparr> entry_path = ''node_modules/a/index.js'', dir = False, entry_text = Some ''a'' \<rparr>,
       \<lparr> entry_path = ''.gitignore'', dir = False, entry_text = Some ''dist'' \<rparr>,
       \<lparr> entry_path = ''README.md'', dir = False, entry_text = Some ''hello'' \<rparr> ]"

definition notesTxt :: File where
  "notesTxt = \<lparr> file_name = ''notes.txt'', archive = None \<rparr>"

definition upperZip :: File where
  "upperZip = \<lparr> file_name = ''project.ZIP'', archive = Some sampleEntries \<rparr>"

definition projectZip :: File where
  "projectZip = \<lparr> file_name = ''project.zip'', archive = Some sampleEntries \<rparr>"

section \<open>The question screen (pages/Questions.tsx)\<close>

text \<open>
  The component's state: the store fields it reads and writes, its own \<open>useState\<close>
  cells that a guard reads (\<open>loading\<close>, \<open>selectedAnswer\<close>, \<open>isMonitoringValid\<close>,
  \<open>assessmentPaused\<close>), the route (\<open>navigate\<close> leaves the screen, which unmounts the
  component and clears its timers) and the rows it updates in the \<open>questions\<close> table.
  The list of warnings, the Bluetooth flag and the toasts are written but never read by
  a guard; they are left out.
\<close>

datatype Severity = Warning | Critical

record QuestionsPage =
  qstore :: AssessmentState
  loading :: bool
  selectedAnswer :: string
  isMonitoringValid :: bool
  assessmentPaused :: bool
  route :: string
  answerUpdates :: "(string \<times> string) list"

text \<open>\<open>xs[i]\<close> for a number \<open>i\<close>: \<open>undefined\<close> (here \<open>None\<close>) outside the array.\<close>

definition at_index :: "'a list \<Rightarrow> int \<Rightarrow> 'a option" where
  "at_index xs i = (if 0 \<le> i \<and> i < int (length xs) then Some (xs ! nat i) else None)"

definition handleProctorViolation :: "Severity \<Rightarrow> QuestionsPage \<Rightarrow> QuestionsPage" where
  "handleProctorViolation severity pg =
     (if severity = Critical then pg\<lparr>assessmentPaused := True, isMonitoringValid := False\<rparr>
      else pg)"

definition handleAnswerSelect :: "string \<Rightarrow> QuestionsPage \<Rightarrow> QuestionsPage" where
  "handleAnswerSelect answer pg =
     (if \<not> isMonitoringValid pg then pg else pg\<lparr>selectedAnswer := answer\<rparr>)"

text \<open>
  The second half of \<open>handleNextQuestion\<close>: the next question with a fresh timer, or
  the completion page after the last one.
\<close>

definition advance :: "QuestionsPage \<Rightarrow> QuestionsPage \<Rightarrow> QuestionsPage" where
  "advance seen pg =
     (if currentQuestionIndex (qstore seen) < int (length (questions (qstore seen))) - 1 then
        pg\<lparr>qstore := setTimeRemaining 30
                (setCurrentQuestionIndex (currentQuestionIndex (qstore seen) + 1) (qstore pg)),
            selectedAnswer := []\<rparr>
      else pg\<lparr>route := ''/assessment-complete''\<rparr>)"

text \<open>
  \<open>handleNextQuestion\<close>. A non-empty string is truthy. With a selection the answer is
  stored and the row of \<open>questions[currentQuestionIndex]\<close> is updated; when there is no
  such question, reading its \<open>id\<close> throws a TypeError and the async function ends there.
  The identifiers \<open>currentQuestionIndex\<close> and \<open>questions\<close> are the ones of the render that
  made the handler (\<open>seen\<close>). The \<open>await\<close> of the update is not modelled as a point
  where other events come in.
\<close>

definition handleNextQuestion :: "QuestionsPage \<Rightarrow> QuestionsPage" where
  "handleNextQuestion pg =
     (if selectedAnswer pg \<noteq> [] then
        let pg1 = pg\<lparr>qstore := setUserAnswer (currentQuestionIndex (qstore pg))
                                  (selectedAnswer pg) (qstore pg)\<rparr> in
        (case at_index (questions (qstore pg)) (currentQuestionIndex (qstore pg)) of
           None \<Rightarrow> pg1
         | Some q \<Rightarrow>
             advance pg (pg1\<lparr>answerUpdates := answerUpdates pg1 @ [(id_q q, selectedAnswer pg)]\<rparr>))
      else advance pg pg)"

text \<open>
  The effect on \<open>timeRemaining\<close>: while time is left, a one-second timeout that
  decrements it; at zero, \<open>handleNextQuestion\<close>.
\<close>

definition countdownEffect :: "QuestionsPage \<Rightarrow> QuestionsPage" where
  "countdownEffect pg =
     (if timeRemaining (qstore pg) > 0 then
        pg\<lparr>qstore := setTimeRemaining (timeRemaining (qstore pg) - 1) (qstore pg)\<rparr>
      else handleNextQuestion pg)"

text \<open>
  What can happen on the mounted screen. The option buttons and the Next button exist
  once \<open>loading\<close> is false; an option button is \<open>disabled\<close> while \<open>isMonitoringValid\<close> is
  false and the Next button while nothing is selected; the Resume button exists while
  the assessment is paused. \<open>DetectionTick n\<close> is a tick of the FaceDetection component
  that found \<open>n\<close> faces: it reports validity through \<open>onValidityChange\<close>, which is
  \<open>setIsMonitoringValid\<close>. \<open>ProctorViolation\<close> is FaceVerification calling
  \<open>onViolation\<close>.

  \<open>initializeAssessment\<close> awaits two calls, so it shows as separate events: the
  assessment row has been inserted (\<open>setCurrentAssessmentId\<close>); the questions have been
  generated (\<open>setQuestions\<close> when the answer holds them, then \<open>setLoading(false)\<close>); or
  one of the two calls has failed, before or after the id was set (the \<open>catch\<close>:
  \<open>navigate('/dashboard')\<close>).
\<close>

datatype event =
    AssessmentCreated string
  | QuestionsGenerated "Question list option"
  | InitializationFailed
  | ClickOption string
  | ClickNext
  | CountdownEffect
  | DetectionTick nat
  | ProctorViolation Severity
  | ClickResume

definition currentOptions :: "QuestionsPage \<Rightarrow> string list" where
  "currentOptions pg =
     (case at_index (questions (qstore pg)) (currentQuestionIndex (qstore pg)) of
        None \<Rightarrow> []
      | Some q \<Rightarrow> options q)"

fun handle :: "event \<Rightarrow> QuestionsPage \<Rightarrow> QuestionsPage" where
  "handle (AssessmentCreated i) pg = pg\<lparr>qstore := setCurrentAssessmentId (Some i) (qstore pg)\<rparr>"
| "handle (QuestionsGenerated qs) pg =
     pg\<lparr>qstore := (case qs of None \<Rightarrow> qstore pg | Some l \<Rightarrow> setQuestions l (qstore pg)),
        loading := False\<rparr>"
| "handle InitializationFailed pg = pg\<lparr>route := ''/dashboard''\<rparr>"
| "handle (ClickOption a) pg =
     (if loading pg then pg
      else if a \<in> set (currentOptions pg) \<and> isMonitoringValid pg then handleAnswerSelect a pg
      else pg)"
| "handle ClickNext pg =
     (if loading pg then pg
      else if selectedAnswer pg \<noteq> [] then handleNextQuestion pg
      else pg)"
| "handle CountdownEffect pg = countdownEffect pg"
| "handle (DetectionTick n) pg = pg\<lparr>isMonitoringValid := (n = 1)\<rparr>"
| "handle (ProctorViolation severity) pg = handleProctorViolation severity pg"
| "handle ClickResume pg =
     (if loading pg then pg
      else if assessmentPaused pg then pg\<lparr>assessmentPaused := False, isMonitoringValid := True\<rparr>
      else pg)"

definition step :: "event \<Rightarrow> QuestionsPage \<Rightarrow> QuestionsPage" where
  "step ev pg = (if route pg = ''/questions'' then handle ev pg else pg)"

definition run :: "event list \<Rightarrow> QuestionsPage \<Rightarrow> QuestionsPage" where
  "run evs pg = fold step evs pg"

text \<open>
  "The step left the current question": the index changed, or the screen was left for
  the completion page.
\<close>

definition leftQuestion :: "QuestionsPage \<Rightarrow> QuestionsPage \<Rightarrow> bool" where
  "leftQuestion pg pg' =
     (currentQuestionIndex (qstore pg') \<noteq> currentQuestionIndex (qstore pg)
      \<or> (route pg = ''/questions'' \<and> route pg' = ''/assessment-complete''))"

text \<open>The screen as it mounts, and with two questions loaded and one face in view.\<close>

definition mountedPage :: QuestionsPage where
  "mountedPage =
     \<lparr> qstore = initialState\<lparr>uploadedFiles := uploadedFiles busyState\<rparr>,
       loading = True, selectedAnswer = [], isMonitoringValid = False,
       assessmentPaused = False, route = ''/questions'', answerUpdates = [] \<rparr>"

definition readyPage :: QuestionsPage where
  "readyPage =
     run [AssessmentCreated ''a-1'', QuestionsGenerated (Some [q1, q2]), DetectionTick 1]
       mountedPage"

text \<open>
  The ready screen after a critical violation; with the second option selected and the
  timer run down; and the same on the last question.
\<close>

definition pausedPage :: QuestionsPage where
  "pausedPage = step (ProctorViolation Critical) readyPage"

definition timeUpPage :: QuestionsPage where
  "timeUpPage = readyPage\<lparr>qstore := setTimeRemaining 0 (qstore readyPage), selectedAnswer := ''B''\<rparr>"

definition lastQuestionPage :: QuestionsPage where
  "lastQuestionPage = timeUpPage\<lparr>qstore := setCurrentQuestionIndex 1 (qstore timeUpPage)\<rparr>"

section \<open>JavaScript numbers\<close>

text \<open>
  A \<open>number\<close> is a binary64 value: a rational, an infinity or NaN (the sign of zero is
  not kept). A comparison with NaN is false.
\<close>

datatype number = NaN | PosInfinity | NegInfinity | Num rat

fun js_less :: "number \<Rightarrow> number \<Rightarrow> bool" where
  "js_less NaN _ = False"
| "js_less _ NaN = False"
| "js_less (Num a) (Num b) = (a < b)"
| "js_less (Num a) PosInfinity = True"
| "js_less (Num a) NegInfinity = False"
| "js_less PosInfinity _ = False"
| "js_less NegInfinity NegInfinity = False"
| "js_less NegInfinity _ = True"

text \<open>
  Arithmetic on numbers rounds its exact result to the nearest binary64 value, ties to
  the even significand. \<open>exponent x\<close> is the integer \<open>e\<close> with \<open>2^e \<le> x < 2^(e+1)\<close> for a
  positive \<open>x\<close>; a binary64 value with that exponent is a multiple of \<open>2^(e - 52)\<close>.
  Subnormal results and overflow are not modelled: the numbers rounded in this
  development lie between \<open>2^-32\<close> and \<open>100\<close>.
\<close>

definition roundTiesToEven :: "rat \<Rightarrow> int" where
  "roundTiesToEven x =
     (let f = \<lfloor>x\<rfloor>; d = x - of_int f in
      if d < 1 / 2 then f else if 1 / 2 < d then f + 1 else if even f then f else f + 1)"

definition exponent :: "rat \<Rightarrow> int" where
  "exponent x =
     (let (p, q) = quotient_of x;
          d = bitlen p - bitlen q
      in if 2 powi d \<le> x then d else d - 1)"

definition binary64 :: "rat \<Rightarrow> rat" where
  "binary64 x =
     (if x = 0 then 0
      else let ulp = 2 powi (exponent \<bar>x\<bar> - 52)
           in sgn x * of_int (roundTiesToEven (\<bar>x\<bar> / ulp)) * ulp)"

fun js_divide :: "number \<Rightarrow> number \<Rightarrow> number" where
  "js_divide NaN _ = NaN"
| "js_divide _ NaN = NaN"
| "js_divide (Num a) (Num b) =
     (if b = 0 then (if a = 0 then NaN else if 0 < a then PosInfinity else NegInfinity)
      else Num (binary64 (a / b)))"
| "js_divide (Num a) _ = Num 0"
| "js_divide PosInfinity (Num b) = (if 0 \<le> b then PosInfinity else NegInfinity)"
| "js_divide NegInfinity (Num b) = (if 0 \<le> b then NegInfinity else PosInfinity)"
| "js_divide _ _ = NaN"

fun js_times :: "number \<Rightarrow> number \<Rightarrow> number" where
  "js_times NaN _ = NaN"
| "js_times _ NaN = NaN"
| "js_times (Num a) (Num b) = Num (binary64 (a * b))"
| "js_times (Num a) PosInfinity =
     (if a = 0 then NaN else if 0 < a then PosInfinity else NegInfinity)"
| "js_times (Num a) NegInfinity =
     (if a = 0 then NaN else if 0 < a then NegInfinity else PosInfinity)"
| "js_times PosInfinity (Num b) =
     (if b = 0 then NaN else if 0 < b then PosInfinity else NegInfinity)"
| "js_times NegInfinity (Num b) =
     (if b = 0 then NaN else if 0 < b then NegInfinity else PosInfinity)"
| "js_times PosInfinity PosInfinity = PosInfinity"
| "js_times NegInfinity NegInfinity = PosInfinity"
| "js_times _ _ = NegInfinity"

text \<open>\<open>Math.round\<close>: the nearest integer, a half going up; NaN and the infinities stay.\<close>

fun Math_round :: "number \<Rightarrow> number" where
  "Math_round (Num x) = Num (of_int \<lfloor>x + 1 / 2\<rfloor>)"
| "Math_round n = n"

text \<open>
  \<open>Math.round((c / t) * 100)\<close> for two counts, the expression both versions of
  evaluate-assessment use for the score.
\<close>

definition percent :: "nat \<Rightarrow> nat \<Rightarrow> number" where
  "percent c t = Math_round (js_times (js_divide (Num (of_nat c)) (Num (of_nat t))) (Num 100))"

section \<open>The proctoring loop (components/FaceVerification.tsx)\<close>

text \<open>
  The component has three state cells (\<open>modelsLoaded\<close>, \<open>verificationStatus\<close>,
  \<open>violationCount\<close>) and two refs (\<open>lastViolationRef\<close>, \<open>detectionIntervalRef\<close>). What it
  does to the outside is kept in three lists: the rows inserted into \<open>proctoring_logs\<close>,
  the calls of the \<open>onViolation\<close> prop, and the toasts.

  React runs the component function once per render, and the functions declared in it
  (\<open>verifyFace\<close>, \<open>handleViolation\<close>, \<open>logProctorEvent\<close>) are closures over that render's
  constants: the props, \<open>modelsLoaded\<close> and \<open>violationCount\<close>. The record \<open>Render\<close> holds
  these constants. Refs and state setters are the same objects in every render, so
  reads of \<open>lastViolationRef.current\<close> and all writes go to the component itself.
  \<open>startVerification\<close> passes \<open>setInterval\<close> an arrow function that calls the
  \<open>verifyFace\<close> of the render in which the effect ran; \<open>detectionIntervalRef\<close> is
  modelled as that render (\<open>None\<close> while no interval is installed).
\<close>

datatype VerificationStatus = Verifying | Verified | Mismatch | MultipleFaces | NoFace

datatype details = Message string | FaceCount nat | Distance number

record ProctoringLog =
  log_assessment_id :: string
  log_user_id :: string
  event_type :: string
  log_severity :: Severity
  log_details :: details

record Render =
  assessmentId :: string
  registeredEmbedding :: "rat list"
  seen_modelsLoaded :: bool
  seen_violationCount :: int

record FaceVerification =
  modelsLoaded :: bool
  verificationStatus :: VerificationStatus
  violationCount :: int
  lastViolationRef :: int
  detectionIntervalRef :: "Render option"
  proctoring_logs :: "ProctoringLog list"
  dispatched :: "Severity list"
  fv_toasts :: "toast list"

text \<open>
  What one tick of the interval meets outside the component: the clock (\<open>Date.now()\<close>,
  milliseconds), the signed-in user that \<open>supabase.auth.getUser()\<close> resolves to (\<open>None\<close>
  when there is none, or when that call or the insert is rejected: the \<open>catch\<close> only
  writes to the console), whether the webcam and its video element are there, and the
  descriptors of the faces that \<open>detectAllFaces\<close> resolves to (\<open>None\<close> when it rejects).
  \<open>faceapi.euclideanDistance\<close> is the library's; it is a parameter of the model,
  \<open>None\<close> when it throws (it does for arrays of different lengths).
\<close>

record Tick =
  now :: int
  user :: "string option"
  video :: bool
  detections :: "rat list list option"

text \<open>
  The literal \<open>0.6\<close> of \<open>distance < 0.6\<close> is a binary64 value: the one nearest to 6/10,
  a little below it.
\<close>

definition threshold :: rat where
  "threshold = 5404319552844595 / 9007199254740992"

definition logProctorEvent ::
    "Render \<Rightarrow> Tick \<Rightarrow> string \<Rightarrow> Severity \<Rightarrow> details \<Rightarrow> FaceVerification \<Rightarrow> FaceVerification" where
  "logProctorEvent r tick eventType severity d c =
     (case user tick of
        None \<Rightarrow> c
      | Some u \<Rightarrow>
          c\<lparr>proctoring_logs := proctoring_logs c
               @ [\<lparr> log_assessment_id = assessmentId r, log_user_id = u, event_type = eventType,
                    log_severity = severity, log_details = d \<rparr>]\<rparr>)"

definition handleViolation ::
    "Render \<Rightarrow> Tick \<Rightarrow> string \<Rightarrow> Severity \<Rightarrow> details \<Rightarrow> FaceVerification \<Rightarrow> FaceVerification" where
  "handleViolation r tick eventType severity d c =
     (if now tick - lastViolationRef c < 5000 then c
      else
        let c1 = c\<lparr>lastViolationRef := now tick\<rparr>;
            c2 = logProctorEvent r tick eventType severity d c1;
            newCount = seen_violationCount r + 1;
            c3 = c2\<lparr>violationCount := newCount\<rparr>
        in
        if severity = Critical then
          c3\<lparr>dispatched := dispatched c3 @ [severity],
              fv_toasts := fv_toasts c3 @
                (if eventType = ''multiple_faces''
                   then [ToastError ''Multiple faces detected! Assessment paused.'']
                 else if eventType = ''face_mismatch''
                   then [ToastError ''Face mismatch detected! Assessment paused.'']
                 else [])\<rparr>
        else
          c3\<lparr>dispatched := dispatched c3 @ [Warning],
              fv_toasts := fv_toasts c3 @ [ToastWarning (''Proctoring warning: '' @ eventType)]\<rparr>)"

definition verifyFace ::
    "(rat list \<Rightarrow> rat list \<Rightarrow> number option) \<Rightarrow> Render \<Rightarrow> Tick \<Rightarrow> FaceVerification
       \<Rightarrow> FaceVerification" where
  "verifyFace euclideanDistance r tick c =
     (if \<not> video tick \<or> \<not> seen_modelsLoaded r then c
      else
        (case detections tick of
           None \<Rightarrow> c
         | Some ds \<Rightarrow>
             if length ds = 0 then
               (handleViolation r tick ''no_face'' Warning (Message ''No face detected'') c)
                 \<lparr>verificationStatus := NoFace\<rparr>
             else if length ds > 1 then
               (handleViolation r tick ''multiple_faces'' Critical (FaceCount (length ds)) c)
                 \<lparr>verificationStatus := MultipleFaces\<rparr>
             else
               (case euclideanDistance (registeredEmbedding r) (ds ! 0) of
                  None \<Rightarrow> c
                | Some distance \<Rightarrow>
                    if js_less distance (Num threshold) then
                      (let c1 = c\<lparr>verificationStatus := Verified\<rparr> in
                       if seen_violationCount r > 0 then c1\<lparr>violationCount := 0\<rparr> else c1)
                    else
                      (handleViolation r tick ''face_mismatch'' Critical (Distance distance) c)
                        \<lparr>verificationStatus := Mismatch\<rparr>)))"

text \<open>
  The life of the component: the initial render, \<open>loadModels\<close> (which sets
  \<open>modelsLoaded\<close> when the three networks load and shows a toast otherwise), the effect
  with the dependency \<open>[modelsLoaded]\<close> (it runs after the render in which
  \<open>modelsLoaded\<close> changed and starts the interval with that render's closures), and a
  tick of the interval.
\<close>

definition mountFaceVerification :: FaceVerification where
  "mountFaceVerification =
     \<lparr> modelsLoaded = False, verificationStatus = Verifying, violationCount = 0,
       lastViolationRef = 0, detectionIntervalRef = None,
       proctoring_logs = [], dispatched = [], fv_toasts = [] \<rparr>"

definition render :: "string \<Rightarrow> rat list \<Rightarrow> FaceVerification \<Rightarrow> Render" where
  "render aid embedding c =
     \<lparr> assessmentId = aid, registeredEmbedding = embedding,
       seen_modelsLoaded = modelsLoaded c, seen_violationCount = violationCount c \<rparr>"

definition loadModels :: "bool \<Rightarrow> FaceVerification \<Rightarrow> FaceVerification" where
  "loadModels loaded c =
     (if loaded then c\<lparr>modelsLoaded := True\<rparr>
      else c\<lparr>fv_toasts := fv_toasts c @ [ToastError ''Failed to load verification models'']\<rparr>)"

definition startVerification :: "string \<Rightarrow> rat list \<Rightarrow> FaceVerification \<Rightarrow> FaceVerification" where
  "startVerification aid embedding c = c\<lparr>detectionIntervalRef := Some (render aid embedding c)\<rparr>"

definition modelsLoadedEffect :: "string \<Rightarrow> rat list \<Rightarrow> FaceVerification \<Rightarrow> FaceVerification" where
  "modelsLoadedEffect aid embedding c =
     (if modelsLoaded c then startVerification aid embedding c else c)"

definition intervalTick ::
    "(rat list \<Rightarrow> rat list \<Rightarrow> number option) \<Rightarrow> Tick \<Rightarrow> FaceVerification \<Rightarrow> FaceVerification" where
  "intervalTick euclideanDistance tick c =
     (case detectionIntervalRef c of None \<Rightarrow> c | Some r \<Rightarrow> verifyFace euclideanDistance r tick c)"

text \<open>
  For concrete runs: descriptors of length one, for which the Euclidean distance is the
  absolute difference; a component whose models have loaded; and ticks two seconds
  apart.
\<close>

definition distance1 :: "rat list \<Rightarrow> rat list \<Rightarrow> number option" where
  "distance1 a b =
     (if length a \<noteq> length b then None
      else Some (Num (sum_list (map (\<lambda>(x, y). \<bar>x - y\<bar>) (zip a b)))))"

definition runningFaceVerification :: FaceVerification where
  "runningFaceVerification =
     modelsLoadedEffect ''a-1'' [1 / 10] (loadModels True mountFaceVerification)"

definition tickAt :: "int \<Rightarrow> rat list list \<Rightarrow> Tick" where
  "tickAt t ds = \<lparr> now = t, user = Some ''u-1'', video = True, detections = Some ds \<rparr>"

definition runningRender :: Render where
  "runningRender = render ''a-1'' [1 / 10] (loadModels True mountFaceVerification)"

section \<open>The serverless functions\<close>

text \<open>
  A handler answers with a JSON body and status 200, or, from its outer \<open>catch\<close>, with
  \<open>{ error: error.message }\<close> and status 500. The CORS preflight (\<open>OPTIONS\<close>) is left out.

  What the handlers get from outside is part of the input: the API key of the
  environment, the answer of the generative-AI endpoint, the outcome of the database
  call, and \<open>parsed\<close>, the outcome of the \<open>try\<close> block that picks the JSON text out of
  the AI's answer with a regular expression and gives it to \<open>JSON.parse\<close>: the parsed
  value, or \<open>None\<close> when the block throws.
\<close>

datatype json =
    JNull
  | JBool bool
  | JNumber number
  | JString string
  | JArray "json list"
  | JObject "(string \<times> json) list"

datatype 'a response = Ok200 'a | Error500 string

text \<open>
  Reading a property: of \<open>null\<close> it throws a TypeError (\<open>Inl\<close> its message); of an
  object it gives the value of the key (the last one, when the text repeated the key)
  or \<open>undefined\<close> (\<open>None\<close>); the other values have none of the properties read here.
\<close>

fun property :: "json \<Rightarrow> string \<Rightarrow> string + json option" where
  "property JNull k = Inl (''Cannot read properties of null (reading '' @ [CHR 0x27] @ k @ [CHR 0x27] @ '')'')"
| "property (JObject kvs) k = Inr (map_of (rev kvs) k)"
| "property _ k = Inr None"

subsection \<open>evaluate-assessment, the version that takes \<open>answers\<close>\<close>

record Answer =
  questionId :: string
  userAnswer_a :: "string option"
  correctAnswer_a :: string

text \<open>The \<open>forEach\<close> loop that counts, and the rounded percentage.\<close>

definition countCorrect :: "Answer list \<Rightarrow> nat" where
  "countCorrect answers =
     fold (\<lambda>answer correctAnswers.
             if userAnswer_a answer = Some (correctAnswer_a answer) then correctAnswers + 1
             else correctAnswers)
          answers 0"

definition totalScore :: "Answer list \<Rightarrow> number" where
  "totalScore answers = percent (countCorrect answers) (length answers)"

record EvaluateWorld =
  GEMINI_API_KEY :: "string option"
  geminiOk :: bool
  parsed :: "json option"
  updateError :: "string option"

record Evaluation =
  ev_totalScore :: number
  ev_plagiarismScore :: "json option"
  ev_report :: json

definition defaultPlagiarismData :: json where
  "defaultPlagiarismData =
     JObject [(''plagiarismScore'', JNumber (Num 85)),
              (''summary'', JString ''Analysis completed successfully.'')]"

definition serve_evaluate :: "EvaluateWorld \<Rightarrow> Answer list \<Rightarrow> Evaluation response" where
  "serve_evaluate w answers =
     (if GEMINI_API_KEY w = None \<or> GEMINI_API_KEY w = Some [] then
        Error500 ''GEMINI_API_KEY is not configured''
      else if \<not> geminiOk w then Error500 ''Failed to generate plagiarism report''
      else
        let plagiarismData = (case parsed w of Some v \<Rightarrow> v | None \<Rightarrow> defaultPlagiarismData) in
        (case property plagiarismData ''plagiarismScore'' of
           Inl msg \<Rightarrow> Error500 msg
         | Inr plagiarismScore \<Rightarrow>
             (case updateError w of
                Some msg \<Rightarrow> Error500 msg
              | None \<Rightarrow>
                  Ok200 \<lparr> ev_totalScore = totalScore answers,
                          ev_plagiarismScore = plagiarismScore,
                          ev_report = plagiarismData \<rparr>)))"

subsection \<open>evaluate-assessment, the version that takes \<open>questions\<close>\<close>

record EvalQuestion =
  question_text :: string
  user_answer :: "string option"
  correct_answer :: string

definition score :: "EvalQuestion list \<Rightarrow> number" where
  "score qs = percent (length (filter (\<lambda>q. user_answer q = Some (correct_answer q)) qs)) (length qs)"

text \<open>
  \<open>geminiText\<close> is the text of the first candidate, or the message of what is thrown
  before the \<open>try\<close> block (a response that is not ok, or a body without the candidate).
\<close>

record AnalysisWorld =
  a_GEMINI_API_KEY :: "string option"
  geminiText :: "string + string"
  a_parsed :: "json option"

record Report =
  rep_assessmentId :: string
  rep_score :: number
  rep_correctAnswers :: nat
  rep_totalQuestions :: nat
  rep_plagiarismScore :: "json option"
  rep_codeQualityAnalysis :: "json option"
  rep_securitySuggestions :: "json option"
  rep_optimizationSuggestions :: "json option"
  rep_overallAssessment :: "json option"

definition defaultAnalysis :: json where
  "defaultAnalysis =
     JObject
       [(''plagiarismScore'', JNumber (Num 15)),
        (''codeQualityAnalysis'',
           JObject
             [(''architecture'', JString ''Clean modular structure with good separation of concerns.''),
              (''codeOrganization'', JString ''Well-organized with clear component hierarchy.''),
              (''bestPractices'', JString ''Follows React best practices and modern patterns.''),
              (''overallRating'', JNumber (Num 8))]),
        (''securitySuggestions'',
           JArray [JString ''Implement input validation on all user inputs'',
                   JString ''Add rate limiting to API endpoints'',
                   JString ''Use environment variables for sensitive data'']),
        (''optimizationSuggestions'',
           JArray [JString ''Implement code splitting for better performance'',
                   JString ''Add memoization for expensive computations'',
                   JString ''Optimize bundle size by removing unused dependencies'']),
        (''overallAssessment'', JString ''Good overall performance with room for optimization.'')]"

definition Deno_serve_evaluate ::
    "AnalysisWorld \<Rightarrow> string \<Rightarrow> EvalQuestion list \<Rightarrow> Report response" where
  "Deno_serve_evaluate w aid qs =
     (if a_GEMINI_API_KEY w = None \<or> a_GEMINI_API_KEY w = Some [] then
        Error500 ''Gemini API key not configured''
      else
        (case geminiText w of
           Inl msg \<Rightarrow> Error500 msg
         | Inr analysisText \<Rightarrow>
             let analysis = (case a_parsed w of Some v \<Rightarrow> v | None \<Rightarrow> defaultAnalysis) in
             (case property analysis ''plagiarismScore'' of
                Inl msg \<Rightarrow> Error500 msg
              | Inr plagiarismScore \<Rightarrow>
                  Ok200 \<lparr> rep_assessmentId = aid,
                          rep_score = score qs,
                          rep_correctAnswers =
                            length (filter (\<lambda>q. user_answer q = Some (correct_answer q)) qs),
                          rep_totalQuestions = length qs,
                          rep_plagiarismScore = plagiarismScore,
                          rep_codeQualityAnalysis = projr (property analysis ''codeQualityAnalysis''),
                          rep_securitySuggestions = projr (property analysis ''securitySuggestions''),
                          rep_optimizationSuggestions =
                            projr (property analysis ''optimizationSuggestions''),
                          rep_overallAssessment = projr (property analysis ''overallAssessment'') \<rparr>)))"

subsection \<open>generate-questions\<close>

text \<open>
  After the parse the handler takes the first ten elements, builds the rows and
  inserts them; \<open>inserted\<close> is what the insert gives back (an error message, or the ids
  of the new rows). \<open>questionsData.slice(0, 10).map(...)\<close> throws a TypeError unless the
  parsed value is an array: \<open>null\<close> has no properties, a string has \<open>slice\<close> but its slice
  has no \<open>map\<close>, and a boolean, a number or an object has no \<open>slice\<close>. A \<open>null\<close> element
  of the array throws when its \<open>questionText\<close> is read. \<open>g_geminiOk\<close> is \<open>response.ok\<close>;
  the body of an ok response is taken to hold the text at \<open>choices[0].message.content\<close>
  (without it the handler throws a TypeError before the \<open>try\<close> block).
\<close>

record GenerateWorld =
  g_GEMINI_API_KEY :: "string option"
  g_geminiOk :: bool
  g_parsed :: "json option"
  inserted :: "string + string list"

record QuestionRow =
  row_question_number :: nat
  row_question_text :: "json option"
  row_options :: "json option"
  row_correct_answer :: "json option"

fun questionRows :: "nat \<Rightarrow> json list \<Rightarrow> string + QuestionRow list" where
  "questionRows index [] = Inr []"
| "questionRows index (q # qs) =
     (case property q ''questionText'' of
        Inl msg \<Rightarrow> Inl msg
      | Inr qtext \<Rightarrow>
          (case questionRows (index + 1) qs of
             Inl msg \<Rightarrow> Inl msg
           | Inr rows \<Rightarrow>
               Inr (\<lparr> row_question_number = index + 1,
                       row_question_text = qtext,
                       row_options = projr (property q ''options''),
                       row_correct_answer = projr (property q ''correctAnswer'') \<rparr> # rows)))"

definition serve_generate :: "GenerateWorld \<Rightarrow> (string \<times> QuestionRow) list response" where
  "serve_generate w =
     (if g_GEMINI_API_KEY w = None \<or> g_GEMINI_API_KEY w = Some [] then
        Error500 ''GEMINI_API_KEY is not configured''
      else if \<not> g_geminiOk w then Error500 ''Failed to generate questions''
      else
        (case g_parsed w of
           None \<Rightarrow> Error500 ''Invalid AI response format''
         | Some (JArray questionsData) \<Rightarrow>
             (case questionRows 0 (take 10 questionsData) of
                Inl msg \<Rightarrow> Error500 msg
              | Inr questionsToInsert \<Rightarrow>
                  (case inserted w of
                     Inl msg \<Rightarrow> Error500 msg
                   | Inr ids \<Rightarrow> Ok200 (zip ids questionsToInsert)))
         | Some JNull \<Rightarrow>
             Error500 (''Cannot read properties of null (reading '' @ [CHR 0x27] @ ''slice''
                         @ [CHR 0x27] @ '')'')
         | Some (JString s) \<Rightarrow> Error500 ''questionsData.slice(...).map is not a function''
         | Some _ \<Rightarrow> Error500 ''questionsData.slice is not a function''))"

text \<open>Worlds in which everything works except that the AI's answer does not parse.\<close>

definition unparsedEvaluate :: EvaluateWorld where
  "unparsedEvaluate =
     \<lparr> GEMINI_API_KEY = Some ''key'', geminiOk = True, parsed = None, updateError = None \<rparr>"

definition unparsedAnalysis :: AnalysisWorld where
  "unparsedAnalysis =
     \<lparr> a_GEMINI_API_KEY = Some ''key'', geminiText = Inr ''Sorry, I cannot do that.'',
       a_parsed = None \<rparr>"

definition unparsedGenerate :: GenerateWorld where
  "unparsedGenerate =
     \<lparr> g_GEMINI_API_KEY = Some ''key'', g_geminiOk = True, g_parsed = None,
       inserted = Inr [] \<rparr>"

definition threeAnswers :: "Answer list" where
  "threeAnswers =
     [ \<lparr> questionId = ''q-1'', userAnswer_a = Some ''A'', correctAnswer_a = ''A'' \<rparr>,
       \<lparr> questionId = ''q-2'', userAnswer_a = None, correctAnswer_a = ''B'' \<rparr>,
       \<lparr> questionId = ''q-3'', userAnswer_a = Some ''C'', correctAnswer_a = ''C'' \<rparr> ]"

section \<open>Properties of the store\<close>

lemma setUserAnswer_questions_nth:
  assumes "j < length (questions s)"
  shows "questions (setUserAnswer i a s) ! j =
           (if int j = i then (questions s ! j)\<lparr>userAnswer := Some a\<rparr> else questions s ! j)"
  using assms by (simp add: setUserAnswer_def nth_enumerate_eq)

lemma setUserAnswer_length:
  "length (questions (setUserAnswer i a s)) = length (questions s)"
  by (simp add: setUserAnswer_def)

lemma setUserAnswer_out_of_range:
  assumes "i < 0 \<or> int (length (questions s)) \<le> i"
  shows "questions (setUserAnswer i a s) = questions s"
proof (rule nth_equalityI)
  show "length (questions (setUserAnswer i a s)) = length (questions s)"
    by (rule setUserAnswer_length)
next
  fix j assume "j < length (questions (setUserAnswer i a s))"
  then have j: "j < length (questions s)" by (simp add: setUserAnswer_length)
  with assms have "int j \<noteq> i" by auto
  with j show "questions (setUserAnswer i a s) ! j = questions s ! j"
    by (simp add: setUserAnswer_questions_nth)
qed

text \<open>
  Claim C9. \<open>setUserAnswer(i, a)\<close> changes nothing but the \<open>userAnswer\<close> of the question
  at position \<open>i\<close>: the list keeps its length, the question at \<open>i\<close> (when there is one)
  is the old one with \<open>userAnswer = a\<close>, every question at another position is the old
  one, the other seven fields of the store keep their values, and an index outside
  \<open>0 .. length - 1\<close> leaves the whole list as it was.
\<close>

theorem setUserAnswer_frame:
  "length (questions (setUserAnswer i a s)) = length (questions s)
   \<and> (\<forall>j < length (questions s). int j = i \<longrightarrow>
         questions (setUserAnswer i a s) ! j = (questions s ! j)\<lparr>userAnswer := Some a\<rparr>)
   \<and> (\<forall>j < length (questions s). int j \<noteq> i \<longrightarrow>
         questions (setUserAnswer i a s) ! j = questions s ! j)
   \<and> currentAssessmentId (setUserAnswer i a s) = currentAssessmentId s
   \<and> uploadedFiles (setUserAnswer i a s) = uploadedFiles s
   \<and> permissions (setUserAnswer i a s) = permissions s
   \<and> faceEmbedding (setUserAnswer i a s) = faceEmbedding s
   \<and> currentQuestionIndex (setUserAnswer i a s) = currentQuestionIndex s
   \<and> timeRemaining (setUserAnswer i a s) = timeRemaining s
   \<and> isAssessmentComplete (setUserAnswer i a s) = isAssessmentComplete s
   \<and> (i < 0 \<or> int (length (questions s)) \<le> i \<longrightarrow>
         questions (setUserAnswer i a s) = questions s)"
proof -
  have frame: "currentAssessmentId (setUserAnswer i a s) = currentAssessmentId s
      \<and> uploadedFiles (setUserAnswer i a s) = uploadedFiles s
      \<and> permissions (setUserAnswer i a s) = permissions s
      \<and> faceEmbedding (setUserAnswer i a s) = faceEmbedding s
      \<and> currentQuestionIndex (setUserAnswer i a s) = currentQuestionIndex s
      \<and> timeRemaining (setUserAnswer i a s) = timeRemaining s
      \<and> isAssessmentComplete (setUserAnswer i a s) = isAssessmentComplete s"
    by (simp add: setUserAnswer_def)
  show ?thesis
    using frame setUserAnswer_length [of i a s] setUserAnswer_out_of_range [of i s a]
    by (simp add: setUserAnswer_questions_nth)
qed

theorem setUserAnswer_frame_witness:
  "length (questions (setUserAnswer 1 ''B'' busyState)) = 2
   \<and> questions (setUserAnswer 1 ''B'' busyState) ! 0 = q1
   \<and> questions (setUserAnswer 1 ''B'' busyState) ! 1 = q2\<lparr>userAnswer := Some ''B''\<rparr>
   \<and> questions (setUserAnswer 2 ''B'' busyState) = [q1, q2]
   \<and> questions (setUserAnswer (- 1) ''B'' busyState) = [q1, q2]
   \<and> permissions (setUserAnswer 1 ''B'' busyState) = \<lparr> camera = True, microphone = False \<rparr>
   \<and> timeRemaining (setUserAnswer 1 ''B'' busyState) = 12"
  using setUserAnswer_frame [of 1 "''B''" busyState]
    setUserAnswer_frame [of 2 "''B''" busyState]
    setUserAnswer_frame [of "- 1" "''B''" busyState]
  by (simp add: busyState_def)

lemma resetAssessment_eq:
  "resetAssessment s = initialState\<lparr>permissions := permissions s\<rparr>"
  by (simp add: resetAssessment_def initialState_def)

text \<open>
  Claim C5 (the code departs from it). \<open>resetAssessment\<close> restores seven of the eight
  fields; \<open>permissions\<close> is not among the keys it sets, so a granted camera stays
  granted and the store after the reset is not the initial one.
\<close>

theorem resetAssessment_keeps_permissions:
  "permissions (resetAssessment busyState) = \<lparr> camera = True, microphone = False \<rparr>
   \<and> camera (permissions (resetAssessment busyState)) \<noteq> camera (permissions initialState)
   \<and> resetAssessment busyState \<noteq> initialState
   \<and> currentAssessmentId (resetAssessment busyState) = None
   \<and> uploadedFiles (resetAssessment busyState) = []
   \<and> faceEmbedding (resetAssessment busyState) = None
   \<and> questions (resetAssessment busyState) = []
   \<and> currentQuestionIndex (resetAssessment busyState) = 0
   \<and> timeRemaining (resetAssessment busyState) = 30
   \<and> isAssessmentComplete (resetAssessment busyState) = False"
  by (simp add: resetAssessment_def initialState_def busyState_def)

section \<open>Properties of the upload page\<close>

text \<open>
  Claim C8. A file whose name does not end in \<open>.zip\<close> is rejected: the handler shows
  the error toast and returns; \<open>zip.loadAsync\<close> is not called, and the store, with its
  list of uploaded files, is the one from before.
\<close>

theorem handleFileUpload_rejects_non_zip:
  assumes "\<not> endsWith (file_name file) ''.zip''"
  shows "toasts (handleFileUpload file pg) = toasts pg @ [ToastError ''Please upload a ZIP file'']
         \<and> loadAsyncCalls (handleFileUpload file pg) = loadAsyncCalls pg
         \<and> store (handleFileUpload file pg) = store pg
         \<and> uploadedFiles (store (handleFileUpload file pg)) = uploadedFiles (store pg)"
  using assms by (simp add: handleFileUpload_def)

theorem handleFileUpload_rejects_non_zip_witness:
  "toasts (handleFileUpload notesTxt uploadPage0) = [ToastError ''Please upload a ZIP file'']
   \<and> loadAsyncCalls (handleFileUpload notesTxt uploadPage0) = []
   \<and> uploadedFiles (store (handleFileUpload notesTxt uploadPage0)) = uploadedFiles busyState
   \<and> loadAsyncCalls (handleFileUpload upperZip uploadPage0) = []
   \<and> uploadedFiles (store (handleFileUpload upperZip uploadPage0)) = uploadedFiles busyState"
proof -
  have a: "\<not> endsWith (file_name notesTxt) ''.zip''"
    by (simp add: notesTxt_def endsWith_def suffix_to_prefix)
  have b: "\<not> endsWith (file_name upperZip) ''.zip''"
    by (simp add: upperZip_def endsWith_def suffix_to_prefix)
  show ?thesis
    using handleFileUpload_rejects_non_zip [OF a, of uploadPage0]
      handleFileUpload_rejects_non_zip [OF b, of uploadPage0]
    by (simp add: uploadPage0_def)
qed

lemma extractFiles_eq:
  assumes "extractFiles es acc = Some fs"
  shows "fs = acc @ map (\<lambda>e. preview (entry_path e) (the (entry_text e))) (filter eligible es)
         \<and> (\<forall>e \<in> set (filter eligible es). entry_text e \<noteq> None)"
  using assms
proof (induction es arbitrary: acc)
  case Nil
  then show ?case by simp
next
  case (Cons e es)
  show ?case
  proof (cases "eligible e")
    case False
    with Cons show ?thesis by simp
  next
    case True
    with Cons.prems obtain body where body: "entry_text e = Some body"
      and rest: "extractFiles es (acc @ [preview (entry_path e) body]) = Some fs"
      by (auto split: option.splits)
    from Cons.IH [OF rest] True body show ?thesis by simp
  qed
qed

text \<open>
  Claim C10. When the handler accepts an archive (the name ends in \<open>.zip\<close>, JSZip
  opens it and every text it asks for is read), the stored list is made of the entries
  of the archive that are no directories and whose path contains neither
  \<open>node_modules\<close> nor \<open>.git\<close>, in the archive's order; each stored file has the entry's
  path as name and path, the first 500 characters of the entry's text as content (the
  whole text when it is shorter) and the length of the whole text as size.
\<close>

theorem handleFileUpload_extracted_files:
  assumes "endsWith (file_name file) ''.zip''"
    and "archive file = Some entries"
    and "extractFiles entries [] = Some files"
  shows "uploadedFiles (store (handleFileUpload file pg)) = files
         \<and> map path files = map entry_path (filter eligible entries)
         \<and> (\<forall>f \<in> set files.
               \<not> js_includes (path f) ''node_modules'' \<and> \<not> js_includes (path f) ''.git''
               \<and> (\<exists>e \<in> set entries. \<exists>body.
                     \<not> dir e \<and> entry_text e = Some body
                     \<and> name f = entry_path e \<and> path f = entry_path e
                     \<and> content f = Some (take 500 body)
                     \<and> prefix (take 500 body) body
                     \<and> length (take 500 body) \<le> 500
                     \<and> size_f f = length body))"
proof -
  from extractFiles_eq [OF assms(3)]
  have fs: "files = map (\<lambda>e. preview (entry_path e) (the (entry_text e))) (filter eligible entries)"
    and rd: "\<forall>e \<in> set (filter eligible entries). entry_text e \<noteq> None"
    by simp_all
  have stored: "uploadedFiles (store (handleFileUpload file pg)) = files"
    using assms by (simp add: handleFileUpload_def setUploadedFiles_def Let_def)
  have paths: "map path files = map entry_path (filter eligible entries)"
    by (simp add: fs preview_def comp_def)
  have each: "\<not> js_includes (path f) ''node_modules'' \<and> \<not> js_includes (path f) ''.git''
      \<and> (\<exists>e \<in> set entries. \<exists>body.
            \<not> dir e \<and> entry_text e = Some body
            \<and> name f = entry_path e \<and> path f = entry_path e
            \<and> content f = Some (take 500 body)
            \<and> prefix (take 500 body) body
            \<and> length (take 500 body) \<le> 500
            \<and> size_f f = length body)" if "f \<in> set files" for f
  proof -
    from that fs obtain e where e: "e \<in> set entries" "eligible e"
      and f: "f = preview (entry_path e) (the (entry_text e))"
      by auto
    from e rd obtain body where body: "entry_text e = Some body" by auto
    have "prefix (take 500 body) body" by (rule take_is_prefix)
    with e f body show ?thesis
      by (auto simp: preview_def eligible_def)
  qed
  from stored paths each show ?thesis by blast
qed

theorem handleFileUpload_extracted_files_witness:
  "map path (uploadedFiles (store (handleFileUpload projectZip uploadPage0)))
     = [''src/main.ts'', ''README.md'']
   \<and> map size_f (uploadedFiles (store (handleFileUpload projectZip uploadPage0))) = [600, 5]
   \<and> map content (uploadedFiles (store (handleFileUpload projectZip uploadPage0)))
     = [Some (replicate 500 CHR ''x''), Some ''hello'']"
proof -
  have el: "filter eligible sampleEntries =
      [ \<lparr> entry_path = ''src/main.ts'', dir = False, entry_text = Some (replicate 600 CHR ''x'') \<rparr>,
        \<lparr> entry_path = ''README.md'', dir = False, entry_text = Some ''hello'' \<rparr> ]"
    by (simp add: sampleEntries_def eligible_def js_includes_def sublist_code)
  have a: "endsWith (file_name projectZip) ''.zip''"
    by (simp add: projectZip_def endsWith_def suffix_to_prefix)
  have b: "archive projectZip = Some sampleEntries"
    by (simp add: projectZip_def)
  have c: "extractFiles sampleEntries [] =
      Some [preview ''src/main.ts'' (replicate 600 CHR ''x''), preview ''README.md'' ''hello'']"
    by (simp add: sampleEntries_def eligible_def js_includes_def sublist_code)
  show ?thesis
    using handleFileUpload_extracted_files [OF a b c, of uploadPage0]
    by (simp add: preview_def)
qed

section \<open>Properties of the question screen\<close>

lemma readyPage_eq:
  "readyPage =
     \<lparr> qstore = initialState\<lparr>uploadedFiles := uploadedFiles busyState,
                              currentAssessmentId := Some ''a-1'', questions := [q1, q2]\<rparr>,
       loading = False, selectedAnswer = [], isMonitoringValid = True,
       assessmentPaused = False, route = ''/questions'', answerUpdates = [] \<rparr>"
  by (simp add: readyPage_def run_def step_def mountedPage_def initialState_def
      setCurrentAssessmentId_def setQuestions_def)

lemma countdown_ticks:
  assumes "route pg = ''/questions''" and "int n \<le> timeRemaining (qstore pg)"
  shows "run (replicate n CountdownEffect) pg
           = pg\<lparr>qstore := setTimeRemaining (timeRemaining (qstore pg) - int n) (qstore pg)\<rparr>"
  using assms
proof (induction n arbitrary: pg)
  case 0
  then show ?case by (simp add: run_def setTimeRemaining_def)
next
  case (Suc n)
  let ?pg1 = "pg\<lparr>qstore := setTimeRemaining (timeRemaining (qstore pg) - 1) (qstore pg)\<rparr>"
  from Suc.prems have one: "step CountdownEffect pg = ?pg1"
    by (simp add: step_def countdownEffect_def)
  have "run (replicate (Suc n) CountdownEffect) pg = run (replicate n CountdownEffect) ?pg1"
    by (simp add: run_def one)
  also have "\<dots> = ?pg1\<lparr>qstore := setTimeRemaining (timeRemaining (qstore ?pg1) - int n) (qstore ?pg1)\<rparr>"
    using Suc.prems by (intro Suc.IH) (simp_all add: setTimeRemaining_def)
  also have "\<dots> = pg\<lparr>qstore := setTimeRemaining (timeRemaining (qstore pg) - int (Suc n)) (qstore pg)\<rparr>"
    by (simp add: setTimeRemaining_def)
  finally show ?case .
qed

text \<open>
  Claim C6 as stated fails: on the first of two questions, with nothing selected, thirty
  ticks of the countdown bring the timer to zero and the next run of the effect moves
  to the second question.
\<close>

theorem countdown_advances_without_selection:
  "selectedAnswer (run (replicate 30 CountdownEffect) readyPage) = []
   \<and> currentQuestionIndex (qstore (run (replicate 30 CountdownEffect) readyPage)) = 0
   \<and> timeRemaining (qstore (run (replicate 30 CountdownEffect) readyPage)) = 0
   \<and> currentQuestionIndex
        (qstore (step CountdownEffect (run (replicate 30 CountdownEffect) readyPage))) = 1
   \<and> leftQuestion (run (replicate 30 CountdownEffect) readyPage)
        (step CountdownEffect (run (replicate 30 CountdownEffect) readyPage))"
proof -
  have r: "route readyPage = ''/questions''" and t: "int 30 \<le> timeRemaining (qstore readyPage)"
    by (simp_all add: readyPage_eq initialState_def)
  show ?thesis
    unfolding countdown_ticks [OF r t]
    by (simp add: readyPage_eq initialState_def setTimeRemaining_def step_def
        countdownEffect_def handleNextQuestion_def advance_def setCurrentQuestionIndex_def
        leftQuestion_def)
qed

text \<open>
  Claim C6, amended. (1) A click on Next with nothing selected changes nothing. (2) A
  click on an option, or a call of \<open>handleAnswerSelect\<close>, while \<open>isMonitoringValid\<close> is
  false changes nothing. (3) A step leaves the current question only when it is a click
  on Next with an option selected, or a run of the countdown effect with the timer at
  zero. (4) A step gives \<open>selectedAnswer\<close> a new non-empty value only when it is a click
  on that option with \<open>isMonitoringValid\<close> true. (5) A critical proctoring violation
  sets \<open>isMonitoringValid\<close> to false and pauses the assessment. (6) With the timer at
  zero and a question after the current one, the countdown effect moves to it, clears
  the selection and sets the timer to 30, whatever was selected. (7) With the timer at
  zero on the last question (or past it with nothing selected), the countdown effect
  leaves for the completion page, whatever was selected.
\<close>

theorem question_screen_guards:
  "(selectedAnswer pg = [] \<longrightarrow> step ClickNext pg = pg)
   \<and> (\<not> isMonitoringValid pg \<longrightarrow> step (ClickOption a) pg = pg \<and> handleAnswerSelect a pg = pg)
   \<and> (leftQuestion pg (step ev pg) \<longrightarrow>
        (ev = ClickNext \<and> selectedAnswer pg \<noteq> [])
        \<or> (ev = CountdownEffect \<and> timeRemaining (qstore pg) \<le> 0))
   \<and> (selectedAnswer (step ev pg) \<noteq> selectedAnswer pg \<and> selectedAnswer (step ev pg) \<noteq> [] \<longrightarrow>
        isMonitoringValid pg \<and> ev = ClickOption (selectedAnswer (step ev pg)))
   \<and> (route pg = ''/questions'' \<longrightarrow>
        \<not> isMonitoringValid (step (ProctorViolation Critical) pg)
        \<and> assessmentPaused (step (ProctorViolation Critical) pg))
   \<and> (route pg = ''/questions'' \<and> timeRemaining (qstore pg) \<le> 0
        \<and> 0 \<le> currentQuestionIndex (qstore pg)
        \<and> currentQuestionIndex (qstore pg) < int (length (questions (qstore pg))) - 1 \<longrightarrow>
        currentQuestionIndex (qstore (step CountdownEffect pg)) = currentQuestionIndex (qstore pg) + 1
        \<and> selectedAnswer (step CountdownEffect pg) = []
        \<and> timeRemaining (qstore (step CountdownEffect pg)) = 30
        \<and> route (step CountdownEffect pg) = ''/questions'')
   \<and> (route pg = ''/questions'' \<and> timeRemaining (qstore pg) \<le> 0
        \<and> int (length (questions (qstore pg))) - 1 \<le> currentQuestionIndex (qstore pg)
        \<and> (selectedAnswer pg = []
             \<or> (0 \<le> currentQuestionIndex (qstore pg)
                 \<and> currentQuestionIndex (qstore pg) < int (length (questions (qstore pg))))) \<longrightarrow>
        route (step CountdownEffect pg) = ''/assessment-complete''
        \<and> currentQuestionIndex (qstore (step CountdownEffect pg)) = currentQuestionIndex (qstore pg))"
proof -
  have next_sel: "selectedAnswer (handleNextQuestion p) = selectedAnswer p
      \<or> selectedAnswer (handleNextQuestion p) = []" for p
    by (simp add: handleNextQuestion_def advance_def Let_def split: option.splits)
  have idle: "selectedAnswer pg = [] \<longrightarrow> step ClickNext pg = pg"
    by (simp add: step_def)
  have invalid: "\<not> isMonitoringValid pg \<longrightarrow>
      step (ClickOption a) pg = pg \<and> handleAnswerSelect a pg = pg"
    by (simp add: step_def handleAnswerSelect_def)
  have left: "leftQuestion pg (step ev pg) \<longrightarrow>
      (ev = ClickNext \<and> selectedAnswer pg \<noteq> [])
      \<or> (ev = CountdownEffect \<and> timeRemaining (qstore pg) \<le> 0)"
    by (cases ev)
      (auto simp: leftQuestion_def step_def Let_def setCurrentAssessmentId_def setQuestions_def
        handleAnswerSelect_def countdownEffect_def setTimeRemaining_def
        handleProctorViolation_def split: option.splits)
  have sel: "selectedAnswer (step ev pg) \<noteq> selectedAnswer pg \<and> selectedAnswer (step ev pg) \<noteq> [] \<longrightarrow>
      isMonitoringValid pg \<and> ev = ClickOption (selectedAnswer (step ev pg))"
    using next_sel [of pg]
    by (cases ev)
      (auto simp: step_def Let_def handleAnswerSelect_def countdownEffect_def
        handleProctorViolation_def split: option.splits)
  have crit: "route pg = ''/questions'' \<longrightarrow>
      \<not> isMonitoringValid (step (ProctorViolation Critical) pg)
      \<and> assessmentPaused (step (ProctorViolation Critical) pg)"
    by (simp add: step_def handleProctorViolation_def)
  have zero: "route pg = ''/questions'' \<and> timeRemaining (qstore pg) \<le> 0
      \<and> 0 \<le> currentQuestionIndex (qstore pg)
      \<and> currentQuestionIndex (qstore pg) < int (length (questions (qstore pg))) - 1 \<longrightarrow>
      currentQuestionIndex (qstore (step CountdownEffect pg)) = currentQuestionIndex (qstore pg) + 1
      \<and> selectedAnswer (step CountdownEffect pg) = []
      \<and> timeRemaining (qstore (step CountdownEffect pg)) = 30
      \<and> route (step CountdownEffect pg) = ''/questions''"
    by (simp add: step_def countdownEffect_def handleNextQuestion_def advance_def Let_def
        at_index_def setCurrentQuestionIndex_def setTimeRemaining_def setUserAnswer_def)
  have last: "route pg = ''/questions'' \<and> timeRemaining (qstore pg) \<le> 0
      \<and> int (length (questions (qstore pg))) - 1 \<le> currentQuestionIndex (qstore pg)
      \<and> (selectedAnswer pg = []
           \<or> (0 \<le> currentQuestionIndex (qstore pg)
               \<and> currentQuestionIndex (qstore pg) < int (length (questions (qstore pg))))) \<longrightarrow>
      route (step CountdownEffect pg) = ''/assessment-complete''
      \<and> currentQuestionIndex (qstore (step CountdownEffect pg)) = currentQuestionIndex (qstore pg)"
    by (auto simp: step_def countdownEffect_def handleNextQuestion_def advance_def Let_def
        at_index_def setUserAnswer_def)
  from idle invalid left sel crit zero last show ?thesis by blast
qed

theorem question_screen_guards_witness:
  "step ClickNext readyPage = readyPage
   \<and> step (ClickOption ''A'') pausedPage = pausedPage
   \<and> handleAnswerSelect ''A'' pausedPage = pausedPage
   \<and> \<not> leftQuestion readyPage (step CountdownEffect readyPage)
   \<and> selectedAnswer (step (DetectionTick 1) pausedPage) = []
   \<and> \<not> isMonitoringValid pausedPage
   \<and> assessmentPaused pausedPage
   \<and> currentQuestionIndex (qstore (step CountdownEffect timeUpPage)) = 1
   \<and> selectedAnswer (step CountdownEffect timeUpPage) = []
   \<and> timeRemaining (qstore (step CountdownEffect timeUpPage)) = 30
   \<and> route (step CountdownEffect lastQuestionPage) = ''/assessment-complete''
   \<and> route (step CountdownEffect (lastQuestionPage\<lparr>selectedAnswer := []\<rparr>))
       = ''/assessment-complete''"
proof -
  have ready: "selectedAnswer readyPage = []" "route readyPage = ''/questions''"
    "timeRemaining (qstore readyPage) = 30"
    by (simp_all add: readyPage_eq initialState_def)
  have paused: "selectedAnswer pausedPage = []" "\<not> isMonitoringValid pausedPage"
    by (simp_all add: pausedPage_def readyPage_eq step_def handleProctorViolation_def)
  have up: "route timeUpPage = ''/questions''" "timeRemaining (qstore timeUpPage) = 0"
    "currentQuestionIndex (qstore timeUpPage) = 0" "length (questions (qstore timeUpPage)) = 2"
    by (simp_all add: timeUpPage_def readyPage_eq initialState_def setTimeRemaining_def)
  have lastq: "route lastQuestionPage = ''/questions''"
    "timeRemaining (qstore lastQuestionPage) = 0"
    "currentQuestionIndex (qstore lastQuestionPage) = 1"
    "length (questions (qstore lastQuestionPage)) = 2"
    by (simp_all add: lastQuestionPage_def timeUpPage_def readyPage_eq initialState_def
        setTimeRemaining_def setCurrentQuestionIndex_def)
  from question_screen_guards [of readyPage] ready
  have a: "step ClickNext readyPage = readyPage" by blast
  from question_screen_guards [of pausedPage "''A''"] paused
  have b: "step (ClickOption ''A'') pausedPage = pausedPage"
    "handleAnswerSelect ''A'' pausedPage = pausedPage" by blast+
  from question_screen_guards [of readyPage _ CountdownEffect] ready
  have c: "\<not> leftQuestion readyPage (step CountdownEffect readyPage)" by auto
  from question_screen_guards [of pausedPage _ "DetectionTick 1"] paused
  have d: "selectedAnswer (step (DetectionTick 1) pausedPage) = []" by auto
  from question_screen_guards [of readyPage] ready
  have e: "\<not> isMonitoringValid pausedPage" "assessmentPaused pausedPage"
    by (simp_all add: pausedPage_def)
  from question_screen_guards [of timeUpPage] up
  have f: "currentQuestionIndex (qstore (step CountdownEffect timeUpPage)) = 1"
    "selectedAnswer (step CountdownEffect timeUpPage) = []"
    "timeRemaining (qstore (step CountdownEffect timeUpPage)) = 30"
    by simp_all
  from question_screen_guards [of lastQuestionPage] lastq
  have g: "route (step CountdownEffect lastQuestionPage) = ''/assessment-complete''"
    by simp
  from question_screen_guards [of "lastQuestionPage\<lparr>selectedAnswer := []\<rparr>"] lastq
  have h: "route (step CountdownEffect (lastQuestionPage\<lparr>selectedAnswer := []\<rparr>))
      = ''/assessment-complete''"
    by simp
  from a b c d e f g h show ?thesis by simp
qed

text \<open>
  The two flags can part: after a critical violation, the next FaceDetection tick that
  sees one face sets \<open>isMonitoringValid\<close> again while the assessment is still paused,
  and an option can then be selected (the overlay shown while paused covers the buttons
  for the pointer; it does not disable them).
\<close>

lemma selection_while_paused:
  "assessmentPaused (run [ProctorViolation Critical, DetectionTick 1, ClickOption ''A''] readyPage)
   \<and> selectedAnswer (run [ProctorViolation Critical, DetectionTick 1, ClickOption ''A''] readyPage)
       = ''A''"
  by (simp add: run_def step_def readyPage_eq handleProctorViolation_def handleAnswerSelect_def
      currentOptions_def at_index_def initialState_def q1_def)

section \<open>Properties of the proctoring loop\<close>

lemma handleViolation_suppressed:
  assumes "now tick - lastViolationRef c < 5000"
  shows "handleViolation r tick eventType severity d c = c"
  using assms by (simp add: handleViolation_def)

lemma handleViolation_passed:
  assumes "5000 \<le> now tick - lastViolationRef c"
  shows "lastViolationRef (handleViolation r tick eventType severity d c) = now tick"
    and "dispatched (handleViolation r tick eventType severity d c) = dispatched c @ [severity]"
    and "proctoring_logs (handleViolation r tick eventType severity d c)
           = proctoring_logs c @
             (case user tick of
                None \<Rightarrow> []
              | Some u \<Rightarrow> [\<lparr> log_assessment_id = assessmentId r, log_user_id = u,
                            event_type = eventType, log_severity = severity, log_details = d \<rparr>])"
    and "violationCount (handleViolation r tick eventType severity d c) = seen_violationCount r + 1"
    and "detectionIntervalRef (handleViolation r tick eventType severity d c) = detectionIntervalRef c"
  using assms
  by (cases severity; simp add: handleViolation_def logProctorEvent_def Let_def split: option.splits)+

text \<open>
  Claim C2. A violation that \<open>handleViolation\<close> receives less than 5000 ms after the
  last violation it let through (\<open>lastViolationRef\<close>) changes nothing, whatever its event
  type and severity: no row is inserted and \<open>onViolation\<close> is not called. So of two
  violations less than five seconds apart, the first of which is let through, exactly
  the first is dispatched and logged (logged for the signed-in user; without one,
  \<open>logProctorEvent\<close> inserts nothing at all).
\<close>

theorem handleViolation_cooldown:
  "(now tick - lastViolationRef c < 5000 \<longrightarrow>
      handleViolation r tick eventType severity d c = c
      \<and> proctoring_logs (handleViolation r tick eventType severity d c) = proctoring_logs c
      \<and> dispatched (handleViolation r tick eventType severity d c) = dispatched c)
   \<and> (5000 \<le> now ta - lastViolationRef c \<and> now tb - now ta < 5000 \<longrightarrow>
        dispatched (handleViolation rb tb eb sb db
                     (handleViolation ra ta ea sa da c))
          = dispatched c @ [sa]
        \<and> proctoring_logs (handleViolation rb tb eb sb db
                             (handleViolation ra ta ea sa da c))
          = proctoring_logs c @
            (case user ta of
               None \<Rightarrow> []
             | Some u \<Rightarrow> [\<lparr> log_assessment_id = assessmentId ra, log_user_id = u,
                           event_type = ea, log_severity = sa,
                           log_details = da \<rparr>]))"
proof -
  have one: "now tick - lastViolationRef c < 5000 \<longrightarrow>
      handleViolation r tick eventType severity d c = c
      \<and> proctoring_logs (handleViolation r tick eventType severity d c) = proctoring_logs c
      \<and> dispatched (handleViolation r tick eventType severity d c) = dispatched c"
    by (simp add: handleViolation_suppressed)
  have two: "dispatched (handleViolation rb tb eb sb db
                     (handleViolation ra ta ea sa da c))
          = dispatched c @ [sa]
        \<and> proctoring_logs (handleViolation rb tb eb sb db
                             (handleViolation ra ta ea sa da c))
          = proctoring_logs c @
            (case user ta of
               None \<Rightarrow> []
             | Some u \<Rightarrow> [\<lparr> log_assessment_id = assessmentId ra, log_user_id = u,
                           event_type = ea, log_severity = sa,
                           log_details = da \<rparr>])"
    if first: "5000 \<le> now ta - lastViolationRef c" and second: "now tb - now ta < 5000"
  proof -
    let ?c1 = "handleViolation ra ta ea sa da c"
    from handleViolation_passed(1) [OF first] second
    have "now tb - lastViolationRef ?c1 < 5000" by simp
    then have "handleViolation rb tb eb sb db ?c1 = ?c1"
      by (rule handleViolation_suppressed)
    with handleViolation_passed(2,3) [OF first] show ?thesis by simp
  qed
  from one two show ?thesis by blast
qed

theorem handleViolation_cooldown_witness:
  "handleViolation runningRender (tickAt 1700000002000 [[9 / 10]]) ''face_mismatch'' Critical
       (Distance (Num (8 / 10)))
       (handleViolation runningRender (tickAt 1700000000000 []) ''no_face'' Warning
          (Message ''No face detected'') runningFaceVerification)
     = handleViolation runningRender (tickAt 1700000000000 []) ''no_face'' Warning
          (Message ''No face detected'') runningFaceVerification
   \<and> dispatched
       (handleViolation runningRender (tickAt 1700000002000 [[9 / 10]]) ''face_mismatch'' Critical
          (Distance (Num (8 / 10)))
          (handleViolation runningRender (tickAt 1700000000000 [[9 / 10]]) ''face_mismatch'' Critical
             (Distance (Num (8 / 10))) runningFaceVerification))
     = [Critical]
   \<and> proctoring_logs
       (handleViolation runningRender (tickAt 1700000002000 [[9 / 10]]) ''face_mismatch'' Critical
          (Distance (Num (8 / 10)))
          (handleViolation runningRender (tickAt 1700000000000 [[9 / 10]]) ''face_mismatch'' Critical
             (Distance (Num (8 / 10))) runningFaceVerification))
     = [\<lparr> log_assessment_id = ''a-1'', log_user_id = ''u-1'', event_type = ''face_mismatch'',
          log_severity = Critical, log_details = Distance (Num (8 / 10)) \<rparr>]"
proof -
  let ?t1 = "tickAt 1700000000000 []" and ?t1' = "tickAt 1700000000000 [[9 / 10]]"
  let ?t2 = "tickAt 1700000002000 [[9 / 10]]"
  let ?c1 = "handleViolation runningRender ?t1 ''no_face'' Warning (Message ''No face detected'')
               runningFaceVerification"
  have start: "lastViolationRef runningFaceVerification = 0" "dispatched runningFaceVerification = []"
    "proctoring_logs runningFaceVerification = []"
    by (simp_all add: runningFaceVerification_def modelsLoadedEffect_def loadModels_def
        startVerification_def mountFaceVerification_def)
  have last: "lastViolationRef ?c1 = 1700000000000"
    by (simp add: handleViolation_def start tickAt_def logProctorEvent_def Let_def)
  have a: "handleViolation runningRender ?t2 ''face_mismatch'' Critical (Distance (Num (8 / 10))) ?c1 = ?c1"
    using handleViolation_cooldown [where tick = ?t2 and c = ?c1 and r = runningRender
        and eventType = "''face_mismatch''" and severity = Critical
        and d = "Distance (Num (8 / 10))"] last
    by (simp add: tickAt_def)
  have b: "dispatched
       (handleViolation runningRender ?t2 ''face_mismatch'' Critical (Distance (Num (8 / 10)))
          (handleViolation runningRender ?t1' ''face_mismatch'' Critical
             (Distance (Num (8 / 10))) runningFaceVerification)) = [Critical]
     \<and> proctoring_logs
       (handleViolation runningRender ?t2 ''face_mismatch'' Critical (Distance (Num (8 / 10)))
          (handleViolation runningRender ?t1' ''face_mismatch'' Critical
             (Distance (Num (8 / 10))) runningFaceVerification))
     = [\<lparr> log_assessment_id = ''a-1'', log_user_id = ''u-1'', event_type = ''face_mismatch'',
          log_severity = Critical, log_details = Distance (Num (8 / 10)) \<rparr>]"
    using handleViolation_cooldown [where c = runningFaceVerification and ta = ?t1' and tb = ?t2
        and ra = runningRender and ea = "''face_mismatch''" and sa = Critical
        and da = "Distance (Num (8 / 10))"
        and rb = runningRender and eb = "''face_mismatch''" and sb = Critical
        and db = "Distance (Num (8 / 10))"] start
    by (simp add: tickAt_def runningRender_def render_def)
  from a b show ?thesis by simp
qed

text \<open>
  The same on two ticks of the running component: two mismatches two seconds apart
  leave one row in the log and one call of \<open>onViolation\<close>.
\<close>

lemma two_mismatches_one_log:
  "proctoring_logs
     (intervalTick distance1 (tickAt 1700000002000 [[9 / 10]])
        (intervalTick distance1 (tickAt 1700000000000 [[9 / 10]]) runningFaceVerification))
     = [\<lparr> log_assessment_id = ''a-1'', log_user_id = ''u-1'', event_type = ''face_mismatch'',
          log_severity = Critical, log_details = Distance (Num (8 / 10)) \<rparr>]
   \<and> dispatched
       (intervalTick distance1 (tickAt 1700000002000 [[9 / 10]])
          (intervalTick distance1 (tickAt 1700000000000 [[9 / 10]]) runningFaceVerification))
     = [Critical]"
  by (simp add: intervalTick_def verifyFace_def handleViolation_def logProctorEvent_def
      runningFaceVerification_def modelsLoadedEffect_def loadModels_def startVerification_def
      render_def mountFaceVerification_def tickAt_def distance1_def threshold_def Let_def)

text \<open>
  A suppressed violation opens no window of its own: with no face at 0 s, 4 s and 6 s,
  the violation at 4 s is suppressed, and the one at 6 s is let through, six seconds
  after the first.
\<close>

lemma suppressed_violation_opens_no_window:
  "dispatched
     (intervalTick distance1 (tickAt 1700000006000 [])
        (intervalTick distance1 (tickAt 1700000004000 [])
           (intervalTick distance1 (tickAt 1700000000000 []) runningFaceVerification)))
     = [Warning, Warning]
   \<and> dispatched
       (intervalTick distance1 (tickAt 1700000004000 [])
          (intervalTick distance1 (tickAt 1700000000000 []) runningFaceVerification))
     = [Warning]"
  by (simp add: intervalTick_def verifyFace_def handleViolation_def logProctorEvent_def
      runningFaceVerification_def modelsLoadedEffect_def loadModels_def startVerification_def
      render_def mountFaceVerification_def tickAt_def Let_def)

text \<open>
  Claim C3. On a tick that reaches the detector (webcam and video there, models seen as
  loaded, detection resolved), whatever the component's state before: more than one
  face gives the status \<open>multiple_faces\<close> after a \<open>multiple_faces\<close> violation of
  severity critical has gone to \<open>handleViolation\<close>, and no face gives the status
  \<open>no_face\<close> after a \<open>no_face\<close> violation of severity warning has gone to
  \<open>handleViolation\<close>. Outside the cool-down the violation reaches \<open>onViolation\<close> with
  that severity.
\<close>

theorem verifyFace_face_count:
  assumes "video tick" and "seen_modelsLoaded r" and "detections tick = Some ds"
  shows "(1 < length ds \<longrightarrow>
            verifyFace euclideanDistance r tick c
              = (handleViolation r tick ''multiple_faces'' Critical (FaceCount (length ds)) c)
                  \<lparr>verificationStatus := MultipleFaces\<rparr>
            \<and> verificationStatus (verifyFace euclideanDistance r tick c) = MultipleFaces
            \<and> (5000 \<le> now tick - lastViolationRef c \<longrightarrow>
                 dispatched (verifyFace euclideanDistance r tick c) = dispatched c @ [Critical]))
         \<and> (length ds = 0 \<longrightarrow>
            verifyFace euclideanDistance r tick c
              = (handleViolation r tick ''no_face'' Warning (Message ''No face detected'') c)
                  \<lparr>verificationStatus := NoFace\<rparr>
            \<and> verificationStatus (verifyFace euclideanDistance r tick c) = NoFace
            \<and> (5000 \<le> now tick - lastViolationRef c \<longrightarrow>
                 dispatched (verifyFace euclideanDistance r tick c) = dispatched c @ [Warning]))"
proof -
  have many: "verifyFace euclideanDistance r tick c
      = (handleViolation r tick ''multiple_faces'' Critical (FaceCount (length ds)) c)
          \<lparr>verificationStatus := MultipleFaces\<rparr>" if "1 < length ds"
    using assms that by (cases ds) (simp_all add: verifyFace_def)
  have none: "verifyFace euclideanDistance r tick c
      = (handleViolation r tick ''no_face'' Warning (Message ''No face detected'') c)
          \<lparr>verificationStatus := NoFace\<rparr>" if "length ds = 0"
    using assms that by (simp add: verifyFace_def)
  show ?thesis
    using many none by (auto simp: handleViolation_passed(2))
qed

theorem verifyFace_face_count_witness:
  "verificationStatus
     (verifyFace distance1 runningRender (tickAt 1700000000000 [[1 / 10], [2 / 10]])
        (runningFaceVerification\<lparr>verificationStatus := Verified\<rparr>)) = MultipleFaces
   \<and> dispatched
     (verifyFace distance1 runningRender (tickAt 1700000000000 [[1 / 10], [2 / 10]])
        (runningFaceVerification\<lparr>verificationStatus := Verified\<rparr>)) = [Critical]
   \<and> verificationStatus
     (verifyFace distance1 runningRender (tickAt 1700000000000 [])
        (runningFaceVerification\<lparr>verificationStatus := Mismatch\<rparr>)) = NoFace
   \<and> dispatched
     (verifyFace distance1 runningRender (tickAt 1700000000000 [])
        (runningFaceVerification\<lparr>verificationStatus := Mismatch\<rparr>)) = [Warning]"
proof -
  have v: "video (tickAt 1700000000000 ds)" "detections (tickAt 1700000000000 ds) = Some ds"
    "now (tickAt 1700000000000 ds) = 1700000000000" for ds
    by (simp_all add: tickAt_def)
  have m: "seen_modelsLoaded runningRender"
    by (simp add: runningRender_def render_def loadModels_def)
  have start: "lastViolationRef runningFaceVerification = 0"
    "dispatched runningFaceVerification = []"
    by (simp_all add: runningFaceVerification_def modelsLoadedEffect_def loadModels_def
        startVerification_def mountFaceVerification_def)
  let ?two = "[[1 / 10], [2 / 10 :: rat]]"
  let ?cv = "runningFaceVerification\<lparr>verificationStatus := Verified\<rparr>"
  let ?cm = "runningFaceVerification\<lparr>verificationStatus := Mismatch\<rparr>"
  have many: "1 < length ?two" and none: "length ([] :: rat list list) = 0"
    by simp_all
  have cool: "5000 \<le> now (tickAt 1700000000000 ds) - lastViolationRef ?cv"
    "5000 \<le> now (tickAt 1700000000000 ds) - lastViolationRef ?cm" for ds
    by (simp_all add: v(3) start)
  from verifyFace_face_count [OF v(1) m v(2), of ?two distance1 ?cv] many cool(1)
  have a: "verificationStatus (verifyFace distance1 runningRender (tickAt 1700000000000 ?two) ?cv)
        = MultipleFaces
      \<and> dispatched (verifyFace distance1 runningRender (tickAt 1700000000000 ?two) ?cv)
        = dispatched ?cv @ [Critical]"
    by blast
  from verifyFace_face_count [OF v(1) m v(2), of "[]" distance1 ?cm] none cool(2)
  have b: "verificationStatus (verifyFace distance1 runningRender (tickAt 1700000000000 []) ?cm)
        = NoFace
      \<and> dispatched (verifyFace distance1 runningRender (tickAt 1700000000000 []) ?cm)
        = dispatched ?cm @ [Warning]"
    by blast
  from a b show ?thesis by (simp add: start)
qed

text \<open>
  The single-face branch. With one face and a distance below 0.6 the status becomes
  \<open>verified\<close>; the count is set to 0 only when the \<open>violationCount\<close> that the closure sees
  is positive. Otherwise the status becomes \<open>mismatch\<close> after a critical \<open>face_mismatch\<close>
  violation has gone to \<open>handleViolation\<close>.
\<close>

lemma verifyFace_single_face:
  assumes "video tick" and "seen_modelsLoaded r" and "detections tick = Some [face]"
    and "euclideanDistance (registeredEmbedding r) face = Some distance"
  shows "js_less distance (Num threshold) \<Longrightarrow>
           verificationStatus (verifyFace euclideanDistance r tick c) = Verified
           \<and> violationCount (verifyFace euclideanDistance r tick c)
               = (if seen_violationCount r > 0 then 0 else violationCount c)"
    and "\<not> js_less distance (Num threshold) \<Longrightarrow>
           verifyFace euclideanDistance r tick c
             = (handleViolation r tick ''face_mismatch'' Critical (Distance distance) c)
                 \<lparr>verificationStatus := Mismatch\<rparr>"
  using assms by (simp_all add: verifyFace_def Let_def)

text \<open>
  No tick changes \<open>detectionIntervalRef\<close>; the interval started after the models loaded
  keeps calling the closure of that one render, in which \<open>violationCount\<close> is 0.
\<close>

lemma verifyFace_interval:
  "detectionIntervalRef (verifyFace euclideanDistance r tick c) = detectionIntervalRef c"
proof -
  have hv: "detectionIntervalRef (handleViolation r tick eventType severity d c)
      = detectionIntervalRef c" for eventType severity d
    by (cases "now tick - lastViolationRef c < 5000")
      (simp_all add: handleViolation_suppressed handleViolation_passed(5))
  show ?thesis
    by (simp add: verifyFace_def hv Let_def split: option.splits)
qed

lemma intervalTick_interval:
  "detectionIntervalRef (intervalTick euclideanDistance tick c) = detectionIntervalRef c"
  by (simp add: intervalTick_def verifyFace_interval split: option.splits)

lemma started_interval:
  "detectionIntervalRef
     (fold (intervalTick euclideanDistance) ticks
        (modelsLoadedEffect aid embedding (loadModels True mountFaceVerification)))
   = Some \<lparr> assessmentId = aid, registeredEmbedding = embedding,
            seen_modelsLoaded = True, seen_violationCount = 0 \<rparr>"
proof (induction ticks rule: rev_induct)
  case Nil
  show ?case
    by (simp add: modelsLoadedEffect_def loadModels_def startVerification_def render_def
        mountFaceVerification_def)
next
  case (snoc t ticks)
  then show ?case by (simp add: intervalTick_interval)
qed

lemma running_tick_face_count:
  assumes "c = fold (intervalTick euclideanDistance) ticks
                 (modelsLoadedEffect aid embedding (loadModels True mountFaceVerification))"
    and "video tick" and "detections tick = Some ds"
  shows "1 < length ds \<Longrightarrow>
           verificationStatus (intervalTick euclideanDistance tick c) = MultipleFaces"
    and "length ds = 0 \<Longrightarrow>
           verificationStatus (intervalTick euclideanDistance tick c) = NoFace"
proof -
  have ref: "detectionIntervalRef c
      = Some \<lparr> assessmentId = aid, registeredEmbedding = embedding,
                 seen_modelsLoaded = True, seen_violationCount = 0 \<rparr>"
    unfolding assms(1) by (rule started_interval)
  show "1 < length ds \<Longrightarrow>
      verificationStatus (intervalTick euclideanDistance tick c) = MultipleFaces"
    using assms(2,3) ref by (cases ds) (simp_all add: intervalTick_def verifyFace_def)
  show "length ds = 0 \<Longrightarrow>
      verificationStatus (intervalTick euclideanDistance tick c) = NoFace"
    using assms(2,3) ref by (simp add: intervalTick_def verifyFace_def)
qed

lemma verified_tick_never_resets:
  assumes "c = fold (intervalTick euclideanDistance) ticks
                 (modelsLoadedEffect aid embedding (loadModels True mountFaceVerification))"
    and "video tick" and "detections tick = Some [face]"
    and "euclideanDistance embedding face = Some distance"
    and "js_less distance (Num threshold)"
  shows "verificationStatus (intervalTick euclideanDistance tick c) = Verified
         \<and> violationCount (intervalTick euclideanDistance tick c) = violationCount c"
proof -
  let ?r = "\<lparr> assessmentId = aid, registeredEmbedding = embedding,
              seen_modelsLoaded = True, seen_violationCount = 0 \<rparr>"
  have ref: "detectionIntervalRef c = Some ?r"
    unfolding assms(1) by (rule started_interval)
  have "verificationStatus (verifyFace euclideanDistance ?r tick c) = Verified
      \<and> violationCount (verifyFace euclideanDistance ?r tick c)
          = (if seen_violationCount ?r > 0 then 0 else violationCount c)"
    using assms(2-5) by (intro verifyFace_single_face(1)) simp_all
  with ref show ?thesis by (simp add: intervalTick_def)
qed

text \<open>
  Claim C4 (the code departs from it). After the models have loaded, a tick without a
  face raises a violation and the count becomes 1. Two seconds later one face is seen
  at distance 0.2 from the registered descriptor: the status becomes \<open>verified\<close>, and
  the count is still 1. The test \<open>violationCount > 0\<close> reads the 0 of the render that
  started the interval.
\<close>

theorem verified_tick_keeps_violation_count:
  "violationCount (intervalTick distance1 (tickAt 1700000000000 []) runningFaceVerification) = 1
   \<and> distance1 [1 / 10] [3 / 10] = Some (Num (2 / 10))
   \<and> verificationStatus
       (intervalTick distance1 (tickAt 1700000002000 [[3 / 10]])
          (intervalTick distance1 (tickAt 1700000000000 []) runningFaceVerification)) = Verified
   \<and> violationCount
       (intervalTick distance1 (tickAt 1700000002000 [[3 / 10]])
          (intervalTick distance1 (tickAt 1700000000000 []) runningFaceVerification)) = 1"
  by (simp add: intervalTick_def verifyFace_def handleViolation_def logProctorEvent_def
      runningFaceVerification_def modelsLoadedEffect_def loadModels_def startVerification_def
      render_def mountFaceVerification_def tickAt_def distance1_def threshold_def Let_def)

section \<open>Properties of the rounded arithmetic\<close>

text \<open>
  Rounding to binary64 keeps a non-negative number non-negative and does not cross an
  integer bound; so the rounded percentage of \<open>c\<close> out of \<open>t > 0\<close> with \<open>c \<le> t\<close> is an
  integer between 0 and 100.
\<close>

lemma roundTiesToEven_le:
  assumes "x \<le> of_int n"
  shows "roundTiesToEven x \<le> n"
proof -
  have fl: "\<lfloor>x\<rfloor> \<le> n" using assms by (simp add: floor_le_iff)
  have up: "\<lfloor>x\<rfloor> + 1 \<le> n" if "x - of_int \<lfloor>x\<rfloor> \<ge> 1 / 2"
  proof -
    from that have "of_int \<lfloor>x\<rfloor> < x" by linarith
    with assms have "(of_int \<lfloor>x\<rfloor> :: rat) < of_int n" by linarith
    then show ?thesis by simp
  qed
  show ?thesis
    using fl up by (auto simp: roundTiesToEven_def Let_def)
qed

lemma roundTiesToEven_nonneg:
  assumes "0 \<le> x"
  shows "0 \<le> roundTiesToEven x"
proof -
  from assms have "0 \<le> \<lfloor>x\<rfloor>" by simp
  then show ?thesis by (auto simp: roundTiesToEven_def Let_def)
qed

lemma exponent_lower:
  assumes "0 < x"
  shows "2 powi exponent x \<le> x"
proof -
  obtain p q where pq: "quotient_of x = (p, q)" by (cases "quotient_of x")
  then have q: "0 < q" and x: "x = of_int p / of_int q"
    by (simp_all add: quotient_of_denom_pos quotient_of_div)
  from assms x q have p: "0 < p" by (simp add: zero_less_divide_iff)
  define a where "a = nat (bitlen p - 1)"
  define b where "b = nat (bitlen q)"
  from bitlen_bounds [OF p] have pa: "2 ^ a \<le> p" by (simp add: a_def)
  from bitlen_bounds [OF q] have qb: "q < 2 ^ b" by (simp add: b_def)
  have bp: "0 < bitlen p"
  proof (rule ccontr)
    assume "\<not> 0 < bitlen p"
    then have "nat (bitlen p) = 0" by simp
    with bitlen_bounds [OF p] have "p < 1" by simp
    with p show False by simp
  qed
  have ia: "int a = bitlen p - 1" using bp by (simp add: a_def)
  have ib: "int b = bitlen q" by (simp add: b_def bitlen_nonneg)
  have "(2::rat) ^ a \<le> of_int p"
    using pa by (metis of_int_le_iff of_int_numeral of_int_power)
  moreover have "(of_int q :: rat) \<le> 2 ^ b"
    using qb by (metis less_imp_le of_int_le_iff of_int_numeral of_int_power)
  ultimately have "(2::rat) ^ a / 2 ^ b \<le> of_int p / of_int q"
    using q p by (intro frac_le) simp_all
  moreover have "(2::rat) powi (bitlen p - bitlen q - 1) = 2 ^ a / 2 ^ b"
  proof -
    have "bitlen p - bitlen q - 1 = int a - int b" by (simp add: ia ib)
    then show ?thesis by (simp add: power_int_diff)
  qed
  ultimately have low: "(2::rat) powi (bitlen p - bitlen q - 1) \<le> x" by (simp add: x)
  show ?thesis
    using low by (simp add: exponent_def pq Let_def)
qed

lemma exponent_less:
  assumes "0 < x" and "x < 2 powi k" and "0 \<le> k"
  shows "exponent x < k"
proof -
  from exponent_lower [OF assms(1)] assms(2) have "(2::rat) powi exponent x < 2 powi k" by simp
  then show ?thesis using assms(3) by (intro power_int_le_imp_less_exp [of "2::rat"]) simp_all
qed

lemma binary64_nonneg:
  assumes "0 \<le> x"
  shows "0 \<le> binary64 x"
proof (cases "x = 0")
  case True
  then show ?thesis by (simp add: binary64_def)
next
  case False
  with assms have pos: "0 < x" by simp
  have "0 \<le> x / 2 powi (exponent x - 52)" using pos by simp
  then have "0 \<le> roundTiesToEven (x / 2 powi (exponent x - 52))"
    by (rule roundTiesToEven_nonneg)
  with pos show ?thesis by (simp add: binary64_def Let_def)
qed

lemma binary64_le:
  assumes "0 < x" and "x \<le> of_int M" and "exponent x \<le> 52"
  shows "binary64 x \<le> of_int M"
proof -
  define n where "n = nat (52 - exponent x)"
  have ulp: "(2::rat) powi (exponent x - 52) = 1 / 2 ^ n"
  proof -
    have "exponent x - 52 = - int n" using assms(3) by (simp add: n_def)
    then show ?thesis by (simp add: power_int_minus_divide)
  qed
  have "x * 2 ^ n \<le> of_int M * 2 ^ n" using assms(2) by simp
  also have "\<dots> = of_int (M * 2 ^ n)" by simp
  finally have "roundTiesToEven (x * 2 ^ n) \<le> M * 2 ^ n" by (rule roundTiesToEven_le)
  then have "(of_int (roundTiesToEven (x * 2 ^ n)) :: rat) \<le> of_int (M * 2 ^ n)"
    by (simp only: of_int_le_iff)
  then have "(of_int (roundTiesToEven (x * 2 ^ n)) :: rat) / 2 ^ n \<le> of_int M"
    by (simp add: divide_le_eq)
  with assms(1) show ?thesis by (simp add: binary64_def Let_def ulp)
qed

lemma percent_range:
  assumes "0 < t" and "c \<le> t"
  shows "\<exists>k. percent c t = Num (of_int k) \<and> 0 \<le> k \<and> k \<le> 100"
proof -
  define q where "q = binary64 (of_nat c / of_nat t)"
  define m where "m = binary64 (q * 100)"
  have frac: "0 \<le> (of_nat c / of_nat t :: rat)" "(of_nat c / of_nat t :: rat) \<le> 1"
    using assms by simp_all
  have q0: "0 \<le> q" unfolding q_def using frac(1) by (rule binary64_nonneg)
  have q1: "q \<le> 1"
  proof (cases "c = 0")
    case True
    then show ?thesis by (simp add: q_def binary64_def)
  next
    case False
    with assms have pos: "0 < (of_nat c / of_nat t :: rat)" by simp
    have "(of_nat c / of_nat t :: rat) < 2 powi 1" using frac(2) by simp
    with pos have "exponent (of_nat c / of_nat t) < 1" by (intro exponent_less) simp_all
    then have "exponent (of_nat c / of_nat t) \<le> 52" by simp
    with pos frac(2) have "binary64 (of_nat c / of_nat t) \<le> of_int 1"
      by (intro binary64_le) simp_all
    then show ?thesis by (simp add: q_def)
  qed
  have m0: "0 \<le> m" unfolding m_def using q0 by (intro binary64_nonneg) simp
  have m1: "m \<le> 100"
  proof (cases "q = 0")
    case True
    then show ?thesis by (simp add: m_def binary64_def)
  next
    case False
    with q0 have pos: "0 < q * 100" by simp
    have le: "q * 100 \<le> of_int 100" using q1 by simp
    then have "q * 100 < 2 powi 7" by simp
    with pos have "exponent (q * 100) < 7" by (intro exponent_less) simp_all
    then have "exponent (q * 100) \<le> 52" by simp
    with pos le have "binary64 (q * 100) \<le> of_int 100" by (intro binary64_le)
    then show ?thesis by (simp add: m_def)
  qed
  have eq: "percent c t = Num (of_int \<lfloor>m + 1 / 2\<rfloor>)"
    using assms(1) by (simp add: percent_def q_def m_def)
  have "0 \<le> \<lfloor>m + 1 / 2\<rfloor>" using m0 by simp
  moreover have "\<lfloor>m + 1 / 2\<rfloor> \<le> 100" using m1 by (simp add: floor_le_iff) 
  ultimately show ?thesis using eq by blast
qed

text \<open>
  Two runs of the arithmetic. The second shows the rounding of the quotient at work:
  23 of 40 is 57.5 exactly, but \<open>(23 / 40) * 100\<close> is 57.49999999999999 in binary64,
  which \<open>Math.round\<close> takes to 57.
\<close>

lemma percent_two_of_three: "percent 2 3 = Num 67"
  by code_simp

lemma percent_23_of_40: "percent 23 40 = Num 57"
  by code_simp

text \<open>The threshold of the proctoring loop is the rounding of 6/10, and lies below it.\<close>

lemma threshold_binary64: "binary64 (6 / 10) = threshold \<and> threshold < 6 / 10"
  by code_simp

section \<open>Properties of the serverless functions\<close>

text \<open>
  Claim C1 (the code departs from it). For an empty list both versions of
  evaluate-assessment divide 0 by 0: the score is NaN, not an integer between 0 and 100.
\<close>

theorem score_of_empty_list_is_NaN:
  "totalScore [] = NaN \<and> score [] = NaN"
  by (simp add: totalScore_def score_def countCorrect_def percent_def)

text \<open>
  For a list that is not empty the score of either version is an integer between 0 and
  100.
\<close>

lemma countCorrect_le: "countCorrect answers \<le> length answers"
proof -
  have "fold (\<lambda>answer correctAnswers.
               if userAnswer_a answer = Some (correctAnswer_a answer) then correctAnswers + 1
               else correctAnswers) answers n \<le> n + length answers" for n
  proof (induction answers arbitrary: n)
    case Nil
    show ?case by simp
  next
    case (Cons a answers)
    show ?case using Cons.IH [of n] Cons.IH [of "Suc n"] by auto
  qed
  from this [of 0] show ?thesis by (simp add: countCorrect_def)
qed

lemma score_of_nonempty_list:
  "answers \<noteq> [] \<Longrightarrow> \<exists>k. totalScore answers = Num (of_int k) \<and> 0 \<le> k \<and> k \<le> 100"
  "qs \<noteq> [] \<Longrightarrow> \<exists>k. score qs = Num (of_int k) \<and> 0 \<le> k \<and> k \<le> 100"
  unfolding totalScore_def score_def
  by (rule percent_range; simp add: countCorrect_le)+

text \<open>
  Claim C7 as stated fails: in generate-questions the \<open>catch\<close> of the parse throws
  \<open>Invalid AI response format\<close>, and the caller gets that error with status 500.
\<close>

theorem generate_questions_parse_failure_is_error:
  "serve_generate unparsedGenerate = Error500 ''Invalid AI response format''"
  by (simp add: serve_generate_def unparsedGenerate_def)

text \<open>
  Claim C7, amended. When the AI's answer cannot be parsed (key configured, endpoint
  answered): the evaluate-assessment that takes \<open>questions\<close> answers 200 with the
  hardcoded analysis in the report; the one that takes \<open>answers\<close> uses the hardcoded
  \<open>{plagiarismScore: 85, summary}\<close> and answers 200 with it unless the database update
  fails; generate-questions answers with the error \<open>Invalid AI response format\<close>.
\<close>

theorem parse_failure_outcomes:
  "(a_GEMINI_API_KEY wa = Some ka \<and> ka \<noteq> [] \<and> geminiText wa = Inr analysisText
      \<and> a_parsed wa = None \<longrightarrow>
      Deno_serve_evaluate wa aid qs =
        Ok200 \<lparr> rep_assessmentId = aid, rep_score = score qs,
                rep_correctAnswers = length (filter (\<lambda>q. user_answer q = Some (correct_answer q)) qs),
                rep_totalQuestions = length qs,
                rep_plagiarismScore = Some (JNumber (Num 15)),
                rep_codeQualityAnalysis = projr (property defaultAnalysis ''codeQualityAnalysis''),
                rep_securitySuggestions = projr (property defaultAnalysis ''securitySuggestions''),
                rep_optimizationSuggestions =
                  projr (property defaultAnalysis ''optimizationSuggestions''),
                rep_overallAssessment =
                  Some (JString ''Good overall performance with room for optimization.'') \<rparr>)
   \<and> (GEMINI_API_KEY we = Some ke \<and> ke \<noteq> [] \<and> geminiOk we \<and> parsed we = None \<longrightarrow>
        serve_evaluate we answers =
          (case updateError we of
             Some msg \<Rightarrow> Error500 msg
           | None \<Rightarrow>
               Ok200 \<lparr> ev_totalScore = totalScore answers,
                       ev_plagiarismScore = Some (JNumber (Num 85)),
                       ev_report = defaultPlagiarismData \<rparr>))
   \<and> (g_GEMINI_API_KEY wg = Some kg \<and> kg \<noteq> [] \<and> g_geminiOk wg \<and> g_parsed wg = None \<longrightarrow>
        serve_generate wg = Error500 ''Invalid AI response format'')"
  by (simp add: Deno_serve_evaluate_def serve_evaluate_def serve_generate_def
      defaultAnalysis_def defaultPlagiarismData_def split: option.splits)

theorem parse_failure_outcomes_witness:
  "Deno_serve_evaluate unparsedAnalysis ''a-1'' [] =
     Ok200 \<lparr> rep_assessmentId = ''a-1'', rep_score = NaN,
             rep_correctAnswers = 0, rep_totalQuestions = 0,
             rep_plagiarismScore = Some (JNumber (Num 15)),
             rep_codeQualityAnalysis = projr (property defaultAnalysis ''codeQualityAnalysis''),
             rep_securitySuggestions = projr (property defaultAnalysis ''securitySuggestions''),
             rep_optimizationSuggestions = projr (property defaultAnalysis ''optimizationSuggestions''),
             rep_overallAssessment =
               Some (JString ''Good overall performance with room for optimization.'') \<rparr>
   \<and> serve_evaluate unparsedEvaluate [] =
       Ok200 \<lparr> ev_totalScore = NaN, ev_plagiarismScore = Some (JNumber (Num 85)),
               ev_report = defaultPlagiarismData \<rparr>
   \<and> serve_evaluate (unparsedEvaluate\<lparr>updateError := Some ''connection refused''\<rparr>) []
       = Error500 ''connection refused''
   \<and> serve_generate (unparsedGenerate\<lparr>inserted := Inl ''unused''\<rparr>)
       = Error500 ''Invalid AI response format''"
  using parse_failure_outcomes [where wa = unparsedAnalysis and ka = "''key''"
      and analysisText = "''Sorry, I cannot do that.''" and aid = "''a-1''" and qs = "[]"
      and we = unparsedEvaluate and ke = "''key''" and answers = "[]"
      and wg = "unparsedGenerate\<lparr>inserted := Inl ''unused''\<rparr>" and kg = "''key''"]
    parse_failure_outcomes [where we = "unparsedEvaluate\<lparr>updateError := Some ''connection refused''\<rparr>"
      and ke = "''key''" and answers = "[]"]
  by (simp add: unparsedAnalysis_def unparsedEvaluate_def unparsedGenerate_def
      score_def totalScore_def countCorrect_def percent_def)

end
